theory Spec2Isabelle
  imports
    Complex_Main
    "HOL-Library.FSet"
    "HOL-Library.Sublist"
    "HOL-Library.Char_ord"
    "HOL-Library.List_Lexorder"
begin

section \<open>Python values\<close>

text \<open>
  The filters of \<^verbatim>\<open>lib/ansible/plugins/filter/mathstuff.py\<close> are dynamically typed, so
  the embedding works on one type of Python values. Floats are modelled as exact reals:
  there is no rounding error, no overflow, no infinity and no NaN. A set lists its elements
  in the order in which it iterates and a dict its items in insertion order. The semantics
  is Python 3's
  (text and byte strings are distinct, values of unrelated types are not orderable).
\<close>

datatype pyval =
    PNone
  | PBool bool
  | PInt int
  | PFloat real
  | PStr string
  | PBytes string
  | PList "pyval list"
  | PTuple "pyval list"
  | PSet "pyval list"
  | PDict "(pyval \<times> pyval) list"

text \<open>
  Python's \<^verbatim>\<open>==\<close> identifies \<^verbatim>\<open>1\<close>, \<^verbatim>\<open>1.0\<close> and \<^verbatim>\<open>True\<close>, compares sequences
  element by element, and sets and dicts regardless of order. It is modelled as equality of
  canonical forms.
\<close>

datatype cval =
    CNone
  | CNum real
  | CStr string
  | CBytes string
  | CList "cval list"
  | CTuple "cval list"
  | CSet "cval fset"
  | CDict "(cval \<times> cval) fset"

fun canon :: "pyval \<Rightarrow> cval" where
  "canon PNone = CNone"
| "canon (PBool b) = CNum (if b then 1 else 0)"
| "canon (PInt i) = CNum (real_of_int i)"
| "canon (PFloat r) = CNum r"
| "canon (PStr s) = CStr s"
| "canon (PBytes s) = CBytes s"
| "canon (PList xs) = CList (map canon xs)"
| "canon (PTuple xs) = CTuple (map canon xs)"
| "canon (PSet xs) = CSet (fset_of_list (map canon xs))"
| "canon (PDict kvs) = CDict (fset_of_list (map (\<lambda>(k, v). (canon k, canon v)) kvs))"

definition py_eq :: "pyval \<Rightarrow> pyval \<Rightarrow> bool" where
  "py_eq a b = (canon a = canon b)"

text \<open>\<^verbatim>\<open>hash(x)\<close> succeeds: lists, sets and dicts have no hash, a tuple has one when all its
  elements have.\<close>

fun hashable :: "pyval \<Rightarrow> bool" where
  "hashable (PList xs) = False"
| "hashable (PSet xs) = False"
| "hashable (PDict kvs) = False"
| "hashable (PTuple xs) = (\<forall>x \<in> set xs. hashable x)"
| "hashable v = True"

text \<open>\<^verbatim>\<open>isinstance(a, collections.Hashable)\<close> looks at the type of \<^verbatim>\<open>a\<close> only: every type
  but list, set and dict defines \<^verbatim>\<open>__hash__\<close>, a tuple also when its elements do not.\<close>

fun isinstance_Hashable :: "pyval \<Rightarrow> bool" where
  "isinstance_Hashable (PList xs) = False"
| "isinstance_Hashable (PSet xs) = False"
| "isinstance_Hashable (PDict kvs) = False"
| "isinstance_Hashable v = True"

text \<open>Truth value of an object in a condition.\<close>

fun truthy :: "pyval \<Rightarrow> bool" where
  "truthy PNone = False"
| "truthy (PBool b) = b"
| "truthy (PInt i) = (i \<noteq> 0)"
| "truthy (PFloat r) = (r \<noteq> 0)"
| "truthy (PStr s) = (s \<noteq> [])"
| "truthy (PBytes s) = (s \<noteq> [])"
| "truthy (PList xs) = (xs \<noteq> [])"
| "truthy (PTuple xs) = (xs \<noteq> [])"
| "truthy (PSet xs) = (xs \<noteq> [])"
| "truthy (PDict kvs) = (kvs \<noteq> [])"

section \<open>Errors\<close>

text \<open>Python's built-in exceptions that the filters can meet, all subclasses of
  \<^verbatim>\<open>Exception\<close>.\<close>

datatype py_exc = ValueError | TypeError | KeyError | ZeroDivisionError | AssertionError

text \<open>The module raises one exception class of its own, \<^verbatim>\<open>errors.AnsibleFilterError\<close>, with
  a message. There is one constructor per \<^verbatim>\<open>raise\<close> of the source, carrying what the
  message is formatted from.\<close>

datatype filter_msg =
    LogNumbers py_exc
  | PowNumbers py_exc
  | RootNumbers py_exc
  | HaversineListLength nat
  | HaversineDictKeys
  | HaversineNotListOrDict
  | HaversineFloats py_exc
  | HaversineUnit
  | HaversineWentWrong py_exc
  | HumanReadableCantInterpret pyval
  | HumanToBytesCantInterpret pyval
  | RekeyUnknownDuplicates pyval
  | RekeyBadType
  | RekeyItemNotDict
  | RekeyKeyNotFound pyval
  | RekeyOther py_exc
  | RekeyNotUnique pyval

datatype error = AnsibleFilterError filter_msg | PyExc py_exc

section \<open>Dictionaries\<close>

text \<open>A dict finds a key by hash and \<^verbatim>\<open>==\<close>; storing under a key that is present keeps the
  key object and its position and replaces the value.\<close>

fun dict_find :: "(pyval \<times> pyval) list \<Rightarrow> pyval \<Rightarrow> pyval option" where
  "dict_find [] k = None"
| "dict_find ((k', v') # kvs) k = (if py_eq k' k then Some v' else dict_find kvs k)"

fun dict_store :: "(pyval \<times> pyval) list \<Rightarrow> pyval \<Rightarrow> pyval \<Rightarrow> (pyval \<times> pyval) list" where
  "dict_store [] k v = [(k, v)]"
| "dict_store ((k', v') # kvs) k v =
     (if py_eq k' k then (k', v) # kvs else (k', v') # dict_store kvs k v)"

text \<open>\<^verbatim>\<open>d[k]\<close>: an unhashable key is a TypeError, an absent one a KeyError.\<close>

definition py_getitem :: "(pyval \<times> pyval) list \<Rightarrow> pyval \<Rightarrow> py_exc + pyval" where
  "py_getitem d k =
     (if \<not> hashable k then Inl TypeError
      else case dict_find d k of None \<Rightarrow> Inl KeyError | Some v \<Rightarrow> Inr v)"

text \<open>\<^verbatim>\<open>d.get(k, None)\<close>.\<close>

definition py_dict_get :: "(pyval \<times> pyval) list \<Rightarrow> pyval \<Rightarrow> py_exc + pyval" where
  "py_dict_get d k =
     (if \<not> hashable k then Inl TypeError
      else case dict_find d k of None \<Rightarrow> Inr PNone | Some v \<Rightarrow> Inr v)"

section \<open>rekey_on_member\<close>

text \<open>
  \<^verbatim>\<open>
  if isinstance(data, collections.Mapping):
      iterate_over = data.values()
  elif isinstance(data, collections.Iterable) and not isinstance(data, (text_type, binary_type)):
      iterate_over = data
  else:
      raise errors.AnsibleFilterError("Type is not a valid list, set, or dict")
  \<close>
  \<open>None\<close> is the \<^verbatim>\<open>else\<close> branch.
\<close>

fun iterate_over :: "pyval \<Rightarrow> pyval list option" where
  "iterate_over (PDict kvs) = Some (map snd kvs)"
| "iterate_over (PList xs) = Some xs"
| "iterate_over (PTuple xs) = Some xs"
| "iterate_over (PSet xs) = Some xs"
| "iterate_over (PStr s) = None"
| "iterate_over (PBytes s) = None"
| "iterate_over v = None"

text \<open>The body of the \<^verbatim>\<open>for item in iterate_over\<close> loop, with \<^verbatim>\<open>new_obj\<close> threaded
  through.\<close>

fun rekey_loop ::
  "pyval \<Rightarrow> pyval \<Rightarrow> (pyval \<times> pyval) list \<Rightarrow> pyval list \<Rightarrow> error + (pyval \<times> pyval) list"
where
  "rekey_loop key duplicates new_obj [] = Inr new_obj"
| "rekey_loop key duplicates new_obj (item # rest) =
     (case item of
        PDict kvs \<Rightarrow>
          (case py_getitem kvs key of
             Inl KeyError \<Rightarrow> Inl (AnsibleFilterError (RekeyKeyNotFound key))
           | Inl e \<Rightarrow> Inl (AnsibleFilterError (RekeyOther e))
           | Inr key_elem \<Rightarrow>
               (case py_dict_get new_obj key_elem of
                  Inl e \<Rightarrow> Inl (PyExc e)
                | Inr existing \<Rightarrow>
                    if truthy existing then
                      (if py_eq duplicates (PStr ''error'') then
                         Inl (AnsibleFilterError (RekeyNotUnique key_elem))
                       else if py_eq duplicates (PStr ''overwrite'') then
                         rekey_loop key duplicates (dict_store new_obj key_elem item) rest
                       else rekey_loop key duplicates new_obj rest)
                    else rekey_loop key duplicates (dict_store new_obj key_elem item) rest))
      | _ \<Rightarrow> Inl (AnsibleFilterError RekeyItemNotDict))"

definition rekey_on_member :: "pyval \<Rightarrow> pyval \<Rightarrow> pyval \<Rightarrow> error + pyval" where
  "rekey_on_member data key duplicates =
     (if \<not> (py_eq duplicates (PStr ''error'') \<or> py_eq duplicates (PStr ''overwrite'')) then
        Inl (AnsibleFilterError (RekeyUnknownDuplicates duplicates))
      else case iterate_over data of
        None \<Rightarrow> Inl (AnsibleFilterError RekeyBadType)
      | Some items \<Rightarrow> map_sum id PDict (rekey_loop key duplicates [] items))"

text \<open>The value a record is filed under: \<^verbatim>\<open>item[key]\<close> where the item is a mapping that has
  the key.\<close>

definition derived_key :: "pyval \<Rightarrow> pyval \<Rightarrow> pyval option" where
  "derived_key key item = (case item of PDict kvs \<Rightarrow> dict_find kvs key | _ \<Rightarrow> None)"


text \<open>The accepted values of the \<^verbatim>\<open>duplicates\<close> parameter, and the data the filter accepts.\<close>

definition valid_duplicates :: "pyval \<Rightarrow> bool" where
  "valid_duplicates duplicates =
     (py_eq duplicates (PStr ''error'') \<or> py_eq duplicates (PStr ''overwrite''))"

definition is_collection :: "pyval \<Rightarrow> bool" where
  "is_collection data =
     (case data of PList xs \<Rightarrow> True | PTuple xs \<Rightarrow> True | PSet xs \<Rightarrow> True | PDict kvs \<Rightarrow> True
      | _ \<Rightarrow> False)"

text \<open>Every value stored in \<^verbatim>\<open>new_obj\<close> is true in a condition (the source's comment on
  \<^verbatim>\<open>new_obj.get(key_elem, None)\<close>).\<close>

definition all_truthy :: "(pyval \<times> pyval) list \<Rightarrow> bool" where
  "all_truthy d = (\<forall>(k, v) \<in> set d. truthy v)"

text \<open>The two records of the specification's example.\<close>

definition rec_a :: pyval where
  "rec_a = PDict [(PStr ''id'', PInt 1), (PStr ''v'', PStr ''a'')]"

definition rec_b :: pyval where
  "rec_b = PDict [(PStr ''id'', PInt 1), (PStr ''v'', PStr ''b'')]"

section \<open>Iteration, membership and concatenation\<close>

text \<open>Iterating an object (\<^verbatim>\<open>for x in a\<close>, \<^verbatim>\<open>set(a)\<close>, a comprehension): a dict yields its
  keys, a text string its characters, a byte string its bytes as integers; an object that is
  not iterable is a TypeError.\<close>

fun py_iter :: "pyval \<Rightarrow> py_exc + pyval list" where
  "py_iter (PList xs) = Inr xs"
| "py_iter (PTuple xs) = Inr xs"
| "py_iter (PSet xs) = Inr xs"
| "py_iter (PDict kvs) = Inr (map fst kvs)"
| "py_iter (PStr s) = Inr (map (\<lambda>c. PStr [c]) s)"
| "py_iter (PBytes s) = Inr (map (\<lambda>c. PInt (of_char c)) s)"
| "py_iter v = Inl TypeError"

text \<open>\<^verbatim>\<open>x in c\<close> for a list or tuple \<^verbatim>\<open>c\<close>: some element equals \<^verbatim>\<open>x\<close>.\<close>

definition seq_contains :: "pyval list \<Rightarrow> pyval \<Rightarrow> bool" where
  "seq_contains c x = list_ex (\<lambda>e. py_eq e x) c"

text \<open>The integer a byte string is searched for: \<^verbatim>\<open>bool\<close> is a subclass of \<^verbatim>\<open>int\<close>.\<close>

fun int_val :: "pyval \<Rightarrow> int option" where
  "int_val (PBool b) = Some (if b then 1 else 0)"
| "int_val (PInt i) = Some i"
| "int_val v = None"

text \<open>\<^verbatim>\<open>x in b\<close> for any object \<^verbatim>\<open>b\<close>. A set or dict hashes \<^verbatim>\<open>x\<close> (a set looks a set
  up as a frozenset instead), a text string accepts only a text string and looks for a
  substring, a byte string accepts a byte string or an integer in \<^verbatim>\<open>range(256)\<close>.\<close>

fun py_contains :: "pyval \<Rightarrow> pyval \<Rightarrow> py_exc + bool" where
  "py_contains (PList ys) x = Inr (seq_contains ys x)"
| "py_contains (PTuple ys) x = Inr (seq_contains ys x)"
| "py_contains (PSet ys) x =
     (case x of
        PSet xs \<Rightarrow> Inr (seq_contains ys x)
      | _ \<Rightarrow> if hashable x then Inr (seq_contains ys x) else Inl TypeError)"
| "py_contains (PDict kvs) x =
     (if hashable x then Inr (dict_find kvs x \<noteq> None) else Inl TypeError)"
| "py_contains (PStr s) x = (case x of PStr t \<Rightarrow> Inr (sublist t s) | _ \<Rightarrow> Inl TypeError)"
| "py_contains (PBytes s) x =
     (case x of
        PBytes t \<Rightarrow> Inr (sublist t s)
      | _ \<Rightarrow>
        (case int_val x of
           Some i \<Rightarrow> if 0 \<le> i \<and> i < 256 then Inr (i \<in> of_char ` set s) else Inl ValueError
         | None \<Rightarrow> Inl TypeError))"
| "py_contains v x = Inl TypeError"

text \<open>\<^verbatim>\<open>a + b\<close>: two sequences of the same type are concatenated, two numbers added;
  everything else is a TypeError.\<close>

fun num_val :: "pyval \<Rightarrow> real option" where
  "num_val (PBool b) = Some (if b then 1 else 0)"
| "num_val (PInt i) = Some (real_of_int i)"
| "num_val (PFloat r) = Some r"
| "num_val v = None"

fun py_add :: "pyval \<Rightarrow> pyval \<Rightarrow> py_exc + pyval" where
  "py_add (PList xs) b = (case b of PList ys \<Rightarrow> Inr (PList (xs @ ys)) | _ \<Rightarrow> Inl TypeError)"
| "py_add (PTuple xs) b = (case b of PTuple ys \<Rightarrow> Inr (PTuple (xs @ ys)) | _ \<Rightarrow> Inl TypeError)"
| "py_add (PStr s) b = (case b of PStr t \<Rightarrow> Inr (PStr (s @ t)) | _ \<Rightarrow> Inl TypeError)"
| "py_add (PBytes s) b = (case b of PBytes t \<Rightarrow> Inr (PBytes (s @ t)) | _ \<Rightarrow> Inl TypeError)"
| "py_add a b =
     (case (int_val a, int_val b) of
        (Some i, Some j) \<Rightarrow> Inr (PInt (i + j))
      | _ \<Rightarrow>
        (case (num_val a, num_val b) of
           (Some x, Some y) \<Rightarrow> Inr (PFloat (x + y))
         | _ \<Rightarrow> Inl TypeError))"

section \<open>Set theory filters\<close>

text \<open>
  \<^verbatim>\<open>
  c = []
  for x in a:
      if x not in c:
          c.append(x)
  \<close>
\<close>

fun unique_loop :: "pyval list \<Rightarrow> pyval list \<Rightarrow> pyval list" where
  "unique_loop c [] = c"
| "unique_loop c (x # xs) = unique_loop (if \<not> seq_contains c x then c @ [x] else c) xs"

text \<open>
  A set value \<open>PSet xs\<close> lists its elements in the order in which the set iterates. Python
  does not specify that order: it follows from the hashes of the elements. The order in
  which a newly built set iterates is therefore a parameter of the model, \<open>hash_order\<close>,
  applied to the elements in the order of their insertion; for the interpreter it is some
  rearrangement of them.
\<close>

type_synonym set_order = "pyval list \<Rightarrow> pyval list"

text \<open>\<^verbatim>\<open>set(a)\<close>: every element is hashed, and kept unless an equal one is already there.\<close>

definition py_set :: "set_order \<Rightarrow> pyval \<Rightarrow> py_exc + pyval list" where
  "py_set hash_order a =
     (case py_iter a of
        Inl e \<Rightarrow> Inl e
      | Inr xs \<Rightarrow>
        if \<forall>x \<in> set xs. hashable x then Inr (hash_order (unique_loop [] xs)) else Inl TypeError)"

text \<open>The operators \<^verbatim>\<open>&\<close>, \<^verbatim>\<open>-\<close>, \<^verbatim>\<open>^\<close> and \<^verbatim>\<open>|\<close> of two sets, as the elements in
  the order of their insertion into the result. Where two equal elements can be told apart
  (\<^verbatim>\<open>1\<close> and \<^verbatim>\<open>1.0\<close>), \<^verbatim>\<open>s & t\<close> keeps the elements of the set it walks through,
  which is \<^verbatim>\<open>s\<close> when \<^verbatim>\<open>t\<close> is the larger set and \<^verbatim>\<open>t\<close> otherwise; \<^verbatim>\<open>s | t\<close> keeps
  those of \<^verbatim>\<open>s\<close>.\<close>

definition set_and :: "pyval list \<Rightarrow> pyval list \<Rightarrow> pyval list" where
  "set_and s t =
     (if length s < length t then filter (\<lambda>x. seq_contains t x) s
      else filter (\<lambda>x. seq_contains s x) t)"

definition set_sub :: "pyval list \<Rightarrow> pyval list \<Rightarrow> pyval list" where
  "set_sub s t = filter (\<lambda>x. \<not> seq_contains t x) s"

definition set_xor :: "pyval list \<Rightarrow> pyval list \<Rightarrow> pyval list" where
  "set_xor s t = set_sub s t @ set_sub t s"

definition set_or :: "pyval list \<Rightarrow> pyval list \<Rightarrow> pyval list" where
  "set_or s t = unique_loop s t"

text \<open>The first branch of the four binary filters: \<^verbatim>\<open>set(a) op set(b)\<close>.\<close>

definition set_binop ::
  "set_order \<Rightarrow> (pyval list \<Rightarrow> pyval list \<Rightarrow> pyval list) \<Rightarrow> pyval \<Rightarrow> pyval \<Rightarrow> error + pyval"
where
  "set_binop hash_order op a b =
     (case py_set hash_order a of
        Inl e \<Rightarrow> Inl (PyExc e)
      | Inr s \<Rightarrow>
        (case py_set hash_order b of
           Inl e \<Rightarrow> Inl (PyExc e)
         | Inr t \<Rightarrow> Inr (PSet (hash_order (op s t)))))"

text \<open>
  \<^verbatim>\<open>
  def unique(a):
      if isinstance(a, collections.Hashable):
          c = set(a)
      else:
          c = []
          for x in a:
              if x not in c:
                  c.append(x)
      return c
  \<close>
\<close>

definition unique :: "set_order \<Rightarrow> pyval \<Rightarrow> error + pyval" where
  "unique hash_order a =
     (if isinstance_Hashable a then
        (case py_set hash_order a of Inl e \<Rightarrow> Inl (PyExc e) | Inr s \<Rightarrow> Inr (PSet s))
      else
        (case py_iter a of Inl e \<Rightarrow> Inl (PyExc e) | Inr xs \<Rightarrow> Inr (PList (unique_loop [] xs))))"

text \<open>The comprehensions \<^verbatim>\<open>[x for x in a if x in b]\<close> (\<open>keep = True\<close>) and
  \<^verbatim>\<open>[x for x in a if x not in b]\<close> (\<open>keep = False\<close>), over the elements of \<^verbatim>\<open>a\<close>; the
  membership test can raise.\<close>

fun comprehension :: "bool \<Rightarrow> pyval \<Rightarrow> pyval list \<Rightarrow> py_exc + pyval list" where
  "comprehension keep b [] = Inr []"
| "comprehension keep b (x # xs) =
     (case py_contains b x of
        Inl e \<Rightarrow> Inl e
      | Inr r \<Rightarrow>
        (case comprehension keep b xs of
           Inl e \<Rightarrow> Inl e
         | Inr ys \<Rightarrow> Inr (if r = keep then x # ys else ys)))"

text \<open>
  \<^verbatim>\<open>
  def intersect(a, b):
      if isinstance(a, collections.Hashable) and isinstance(b, collections.Hashable):
          c = set(a) & set(b)
      else:
          c = unique([x for x in a if x in b])
      return c
  \<close>
  \<^verbatim>\<open>difference\<close> is the same with \<^verbatim>\<open>-\<close> and \<^verbatim>\<open>not in\<close>.
\<close>

definition intersect :: "set_order \<Rightarrow> pyval \<Rightarrow> pyval \<Rightarrow> error + pyval" where
  "intersect hash_order a b =
     (if isinstance_Hashable a \<and> isinstance_Hashable b then set_binop hash_order set_and a b
      else
        (case py_iter a of
           Inl e \<Rightarrow> Inl (PyExc e)
         | Inr xs \<Rightarrow>
           (case comprehension True b xs of
              Inl e \<Rightarrow> Inl (PyExc e)
            | Inr ys \<Rightarrow> unique hash_order (PList ys))))"

definition difference :: "set_order \<Rightarrow> pyval \<Rightarrow> pyval \<Rightarrow> error + pyval" where
  "difference hash_order a b =
     (if isinstance_Hashable a \<and> isinstance_Hashable b then set_binop hash_order set_sub a b
      else
        (case py_iter a of
           Inl e \<Rightarrow> Inl (PyExc e)
         | Inr xs \<Rightarrow>
           (case comprehension False b xs of
              Inl e \<Rightarrow> Inl (PyExc e)
            | Inr ys \<Rightarrow> unique hash_order (PList ys))))"

text \<open>
  \<^verbatim>\<open>
  def union(a, b):
      if isinstance(a, collections.Hashable) and isinstance(b, collections.Hashable):
          c = set(a) | set(b)
      else:
          c = unique(a + b)
      return c
  \<close>
\<close>

definition union :: "set_order \<Rightarrow> pyval \<Rightarrow> pyval \<Rightarrow> error + pyval" where
  "union hash_order a b =
     (if isinstance_Hashable a \<and> isinstance_Hashable b then set_binop hash_order set_or a b
      else
        (case py_add a b of
           Inl e \<Rightarrow> Inl (PyExc e)
         | Inr ab \<Rightarrow> unique hash_order ab))"

text \<open>\<^verbatim>\<open>[x for x in union(a, b) if x not in intersect(a, b)]\<close>: the condition calls
  \<^verbatim>\<open>intersect(a, b)\<close> once for every element of the union.\<close>

fun sym_comprehension :: "set_order \<Rightarrow> pyval \<Rightarrow> pyval \<Rightarrow> pyval list \<Rightarrow> error + pyval list" where
  "sym_comprehension hash_order a b [] = Inr []"
| "sym_comprehension hash_order a b (x # xs) =
     (case intersect hash_order a b of
        Inl e \<Rightarrow> Inl e
      | Inr i \<Rightarrow>
        (case py_contains i x of
           Inl e \<Rightarrow> Inl (PyExc e)
         | Inr r \<Rightarrow>
           (case sym_comprehension hash_order a b xs of
              Inl e \<Rightarrow> Inl e
            | Inr ys \<Rightarrow> Inr (if \<not> r then x # ys else ys))))"

text \<open>
  \<^verbatim>\<open>
  def symmetric_difference(a, b):
      if isinstance(a, collections.Hashable) and isinstance(b, collections.Hashable):
          c = set(a) ^ set(b)
      else:
          c = unique([x for x in union(a, b) if x not in intersect(a, b)])
      return c
  \<close>
\<close>

definition symmetric_difference :: "set_order \<Rightarrow> pyval \<Rightarrow> pyval \<Rightarrow> error + pyval" where
  "symmetric_difference hash_order a b =
     (if isinstance_Hashable a \<and> isinstance_Hashable b then set_binop hash_order set_xor a b
      else
        (case union hash_order a b of
           Inl e \<Rightarrow> Inl e
         | Inr u \<Rightarrow>
           (case py_iter u of
              Inl e \<Rightarrow> Inl (PyExc e)
            | Inr us \<Rightarrow>
              (case sym_comprehension hash_order a b us of
                 Inl e \<Rightarrow> Inl e
               | Inr ys \<Rightarrow> unique hash_order (PList ys)))))"

text \<open>The specification's reading of the symmetric difference:
  \<^verbatim>\<open>difference(union(a, b), intersect(a, b))\<close>, the arguments evaluated left to right.\<close>

definition difference_of_union_and_intersect :: "set_order \<Rightarrow> pyval \<Rightarrow> pyval \<Rightarrow> error + pyval" where
  "difference_of_union_and_intersect hash_order a b =
     (case union hash_order a b of
        Inl e \<Rightarrow> Inl e
      | Inr u \<Rightarrow>
        (case intersect hash_order a b of
           Inl e \<Rightarrow> Inl e
         | Inr i \<Rightarrow> difference hash_order u i))"

text \<open>Duplicates removed in first-seen order, as a specification: the head is kept and
  everything equal to it is dropped from the rest.\<close>

function first_seen :: "pyval list \<Rightarrow> pyval list" where
  "first_seen [] = []"
| "first_seen (x # xs) = x # first_seen (filter (\<lambda>y. \<not> py_eq x y) xs)"
  by pat_completeness auto
termination
  by (relation "measure length") (auto simp: less_Suc_eq_le)

text \<open>No two elements of a list are equal.\<close>

fun py_distinct :: "pyval list \<Rightarrow> bool" where
  "py_distinct [] = True"
| "py_distinct (x # xs) = (\<not> seq_contains xs x \<and> py_distinct xs)"

section \<open>min and max\<close>

text \<open>Python's \<^verbatim>\<open><\<close>: numbers are compared by value, text strings and byte strings
  lexicographically, lists and tuples lexicographically on the first pair of elements that
  are not equal, sets by proper inclusion; everything else is a TypeError.\<close>

fun py_lt :: "pyval \<Rightarrow> pyval \<Rightarrow> py_exc + bool"
  and lex_lt :: "pyval list \<Rightarrow> pyval list \<Rightarrow> py_exc + bool" where
  "py_lt (PStr s) b = (case b of PStr t \<Rightarrow> Inr (s < t) | _ \<Rightarrow> Inl TypeError)"
| "py_lt (PBytes s) b = (case b of PBytes t \<Rightarrow> Inr (s < t) | _ \<Rightarrow> Inl TypeError)"
| "py_lt (PList xs) b = (case b of PList ys \<Rightarrow> lex_lt xs ys | _ \<Rightarrow> Inl TypeError)"
| "py_lt (PTuple xs) b = (case b of PTuple ys \<Rightarrow> lex_lt xs ys | _ \<Rightarrow> Inl TypeError)"
| "py_lt (PSet xs) b =
     (case b of
        PSet ys \<Rightarrow> Inr (fset_of_list (map canon xs) |\<subset>| fset_of_list (map canon ys))
      | _ \<Rightarrow> Inl TypeError)"
| "py_lt a b =
     (case (num_val a, num_val b) of
        (Some x, Some y) \<Rightarrow> Inr (x < y)
      | _ \<Rightarrow> Inl TypeError)"
| "lex_lt [] [] = Inr False"
| "lex_lt [] (y # ys) = Inr True"
| "lex_lt (x # xs) [] = Inr False"
| "lex_lt (x # xs) (y # ys) = (if py_eq x y then lex_lt xs ys else py_lt x y)"

text \<open>The built-in \<^verbatim>\<open>min\<close> of one iterable: the first element is the candidate, and a later
  element replaces it when it is smaller. \<^verbatim>\<open>max\<close> replaces the candidate when the element
  is greater, that is when the candidate is smaller than the element.\<close>

fun builtin_min_loop :: "pyval \<Rightarrow> pyval list \<Rightarrow> py_exc + pyval" where
  "builtin_min_loop m [] = Inr m"
| "builtin_min_loop m (x # xs) =
     (case py_lt x m of
        Inl e \<Rightarrow> Inl e
      | Inr smaller \<Rightarrow> builtin_min_loop (if smaller then x else m) xs)"

fun builtin_max_loop :: "pyval \<Rightarrow> pyval list \<Rightarrow> py_exc + pyval" where
  "builtin_max_loop m [] = Inr m"
| "builtin_max_loop m (x # xs) =
     (case py_lt m x of
        Inl e \<Rightarrow> Inl e
      | Inr bigger \<Rightarrow> builtin_max_loop (if bigger then x else m) xs)"

definition builtin_min :: "pyval \<Rightarrow> py_exc + pyval" where
  "builtin_min a =
     (case py_iter a of
        Inl e \<Rightarrow> Inl e
      | Inr [] \<Rightarrow> Inl ValueError
      | Inr (x # xs) \<Rightarrow> builtin_min_loop x xs)"

definition builtin_max :: "pyval \<Rightarrow> py_exc + pyval" where
  "builtin_max a =
     (case py_iter a of
        Inl e \<Rightarrow> Inl e
      | Inr [] \<Rightarrow> Inl ValueError
      | Inr (x # xs) \<Rightarrow> builtin_max_loop x xs)"

text \<open>
  \<^verbatim>\<open>
  def min(a):
      _min = __builtins__.get('min')
      return _min(a)
  \<close>
  There is no \<^verbatim>\<open>try\<close>: what the built-in raises leaves the filter as it is.
\<close>

definition min_filter :: "pyval \<Rightarrow> error + pyval" where
  "min_filter a = (case builtin_min a of Inl e \<Rightarrow> Inl (PyExc e) | Inr m \<Rightarrow> Inr m)"

definition max_filter :: "pyval \<Rightarrow> error + pyval" where
  "max_filter a = (case builtin_max a of Inl e \<Rightarrow> Inl (PyExc e) | Inr m \<Rightarrow> Inr m)"

text \<open>The elements are mutually orderable, and \<^verbatim>\<open><\<close> is a strict order on them.\<close>

definition orderable :: "pyval list \<Rightarrow> bool" where
  "orderable xs =
     (\<forall>x \<in> set xs. \<forall>y \<in> set xs. case py_lt x y of Inl e \<Rightarrow> False | Inr b \<Rightarrow> True)"

definition strict_order :: "pyval list \<Rightarrow> bool" where
  "strict_order xs =
     ((\<forall>x \<in> set xs. py_lt x x \<noteq> Inr True) \<and>
      (\<forall>x \<in> set xs. \<forall>y \<in> set xs. \<forall>z \<in> set xs.
         py_lt x y = Inr True \<and> py_lt y z = Inr True \<longrightarrow> py_lt x z = Inr True))"

section \<open>Exponents and logarithms\<close>

text \<open>The functions of the \<^verbatim>\<open>math\<close> module take numbers only (a string is a TypeError) and
  raise ValueError outside their domain. \<^verbatim>\<open>math.log(x, base)\<close> takes the logarithm of
  \<^verbatim>\<open>x\<close> before it looks at \<^verbatim>\<open>base\<close>, and divides by the logarithm of the base.\<close>

definition math_log10 :: "pyval \<Rightarrow> py_exc + pyval" where
  "math_log10 x =
     (case num_val x of
        None \<Rightarrow> Inl TypeError
      | Some r \<Rightarrow> if r \<le> 0 then Inl ValueError else Inr (PFloat (log 10 r)))"

definition math_log :: "pyval \<Rightarrow> pyval \<Rightarrow> py_exc + pyval" where
  "math_log x base =
     (case num_val x of
        None \<Rightarrow> Inl TypeError
      | Some r \<Rightarrow>
        if r \<le> 0 then Inl ValueError
        else
          (case num_val base of
             None \<Rightarrow> Inl TypeError
           | Some b \<Rightarrow>
             if b \<le> 0 then Inl ValueError
             else if b = 1 then Inl ZeroDivisionError
             else Inr (PFloat (ln r / ln b))))"

definition math_sqrt :: "pyval \<Rightarrow> py_exc + pyval" where
  "math_sqrt x =
     (case num_val x of
        None \<Rightarrow> Inl TypeError
      | Some r \<Rightarrow> if r < 0 then Inl ValueError else Inr (PFloat (sqrt r)))"

text \<open>\<^verbatim>\<open>math.pow(x, y)\<close>: a negative number has only integer powers, zero no negative
  power.\<close>

definition pow_real :: "real \<Rightarrow> real \<Rightarrow> real" where
  "pow_real x y =
     (if 0 < x then x powr y
      else if x = 0 then (if y = 0 then 1 else 0)
      else (if even \<lfloor>y\<rfloor> then 1 else - 1) * ((- x) powr y))"

definition math_pow :: "pyval \<Rightarrow> pyval \<Rightarrow> py_exc + pyval" where
  "math_pow x y =
     (case (num_val x, num_val y) of
        (Some r, Some s) \<Rightarrow>
          if r < 0 \<and> s \<noteq> of_int \<lfloor>s\<rfloor> then Inl ValueError
          else if r = 0 \<and> s < 0 then Inl ValueError
          else Inr (PFloat (pow_real r s))
      | _ \<Rightarrow> Inl TypeError)"

text \<open>\<^verbatim>\<open>float(v)\<close>: a number is converted, a text or byte string is parsed (a ValueError when
  it is no float literal), any other object is a TypeError. The parser of float literals is
  Python's own; it is the parameter \<open>str2float\<close>, \<open>None\<close> for a string that does not
  parse.\<close>

definition py_float :: "(string \<Rightarrow> real option) \<Rightarrow> pyval \<Rightarrow> py_exc + real" where
  "py_float str2float v =
     (case v of
        PStr s \<Rightarrow> (case str2float s of None \<Rightarrow> Inl ValueError | Some r \<Rightarrow> Inr r)
      | PBytes s \<Rightarrow> (case str2float s of None \<Rightarrow> Inl ValueError | Some r \<Rightarrow> Inr r)
      | _ \<Rightarrow> (case num_val v of None \<Rightarrow> Inl TypeError | Some r \<Rightarrow> Inr r))"

text \<open>
  \<^verbatim>\<open>
  def logarithm(x, base=math.e):
      try:
          if base == 10:
              return math.log10(x)
          else:
              return math.log(x, base)
      except TypeError as e:
          raise errors.AnsibleFilterError('log() can only be used on numbers: %s' % str(e))
  \<close>
\<close>

definition logarithm :: "pyval \<Rightarrow> pyval \<Rightarrow> error + pyval" where
  "logarithm x base =
     (case (if py_eq base (PInt 10) then math_log10 x else math_log x base) of
        Inl TypeError \<Rightarrow> Inl (AnsibleFilterError (LogNumbers TypeError))
      | Inl e \<Rightarrow> Inl (PyExc e)
      | Inr v \<Rightarrow> Inr v)"

definition power :: "pyval \<Rightarrow> pyval \<Rightarrow> error + pyval" where
  "power x y =
     (case math_pow x y of
        Inl TypeError \<Rightarrow> Inl (AnsibleFilterError (PowNumbers TypeError))
      | Inl e \<Rightarrow> Inl (PyExc e)
      | Inr v \<Rightarrow> Inr v)"

text \<open>
  \<^verbatim>\<open>
  def inversepower(x, base=2):
      try:
          if base == 2:
              return math.sqrt(x)
          else:
              return math.pow(x, 1.0 / float(base))
      except (ValueError, TypeError) as e:
          raise errors.AnsibleFilterError('root() can only be used on numbers: %s' % str(e))
  \<close>
  The body of the \<^verbatim>\<open>try\<close> first, then the handler.
\<close>

definition inversepower_body :: "(string \<Rightarrow> real option) \<Rightarrow> pyval \<Rightarrow> pyval \<Rightarrow> py_exc + pyval" where
  "inversepower_body str2float x base =
     (if py_eq base (PInt 2) then math_sqrt x
      else
        (case py_float str2float base of
           Inl e \<Rightarrow> Inl e
         | Inr b \<Rightarrow> if b = 0 then Inl ZeroDivisionError else math_pow x (PFloat (1 / b))))"

definition inversepower :: "(string \<Rightarrow> real option) \<Rightarrow> pyval \<Rightarrow> pyval \<Rightarrow> error + pyval" where
  "inversepower str2float x base =
     (case inversepower_body str2float x base of
        Inl ValueError \<Rightarrow> Inl (AnsibleFilterError (RootNumbers ValueError))
      | Inl TypeError \<Rightarrow> Inl (AnsibleFilterError (RootNumbers TypeError))
      | Inl e \<Rightarrow> Inl (PyExc e)
      | Inr v \<Rightarrow> Inr v)"

section \<open>Unit conversion\<close>

text \<open>\<^verbatim>\<open>"... %s" % v\<close> with a single conversion: a tuple on the right is the list of the
  arguments, so it must have exactly one element, which is then the value formatted; any
  other object is formatted itself. The result is the value the message shows.\<close>

definition percent_s :: "pyval \<Rightarrow> py_exc + pyval" where
  "percent_s v =
     (case v of
        PTuple xs \<Rightarrow> (case xs of [x] \<Rightarrow> Inr x | _ \<Rightarrow> Inl TypeError)
      | _ \<Rightarrow> Inr v)"

text \<open>
  \<^verbatim>\<open>
  def human_readable(size, isbits=False, unit=None):
      try:
          return basic.bytes_to_human(size, isbits, unit)
      except Exception:
          raise errors.AnsibleFilterError("human_readable() can't interpret following string: %s" % size)
  \<close>
  \<^verbatim>\<open>basic.bytes_to_human\<close> and \<^verbatim>\<open>basic.human_to_bytes\<close> belong to another module; they are
  parameters, which return a value or raise an exception.
\<close>

type_synonym humanize = "pyval \<Rightarrow> pyval \<Rightarrow> pyval \<Rightarrow> py_exc + pyval"

definition human_readable :: "humanize \<Rightarrow> pyval \<Rightarrow> pyval \<Rightarrow> pyval \<Rightarrow> error + pyval" where
  "human_readable bytes_to_human size' isbits unit =
     (case bytes_to_human size' isbits unit of
        Inr v \<Rightarrow> Inr v
      | Inl e \<Rightarrow>
        (case percent_s size' of
           Inl e' \<Rightarrow> Inl (PyExc e')
         | Inr v \<Rightarrow> Inl (AnsibleFilterError (HumanReadableCantInterpret v))))"

definition human_to_bytes :: "humanize \<Rightarrow> pyval \<Rightarrow> pyval \<Rightarrow> pyval \<Rightarrow> error + pyval" where
  "human_to_bytes basic_human_to_bytes size' default_unit isbits =
     (case basic_human_to_bytes size' default_unit isbits of
        Inr v \<Rightarrow> Inr v
      | Inl e \<Rightarrow>
        (case percent_s size' of
           Inl e' \<Rightarrow> Inl (PyExc e')
         | Inr v \<Rightarrow> Inl (AnsibleFilterError (HumanToBytesCantInterpret v))))"

section \<open>haversine\<close>

text \<open>
  \<^verbatim>\<open>
  if isinstance(coordinates, list):
      if (len(coordinates) == 4):
          lat1, lon1, lat2, lon2 = coordinates
      elif (len(coordinates) == 5):
          lat1, lon1, lat2, lon2, unit = coordinates
      else:
          raise errors.AnsibleFilterError('haversine() supplied list should contain 4 elements ...')
  elif isinstance(coordinates, dict):
      if all(k in coordinates for k in ('lat1', 'lon1', 'lat2', 'lon2')):
          lat1 = coordinates.get('lat1')
          ...
          unit = coordinates.get('unit')
      else:
          raise errors.AnsibleFilterError('haversine() supplied dicts must contain 4 keys ...')
  else:
      raise errors.AnsibleFilterError('haversine() only accepts a list or dict of coordinates.')
  \<close>
  The local variable \<^verbatim>\<open>unit\<close> is an option: \<open>None\<close> when the name is not bound (a list of
  four elements).
\<close>

definition dict_get_or_None :: "(pyval \<times> pyval) list \<Rightarrow> string \<Rightarrow> pyval" where
  "dict_get_or_None kvs k = (case dict_find kvs (PStr k) of None \<Rightarrow> PNone | Some v \<Rightarrow> v)"

definition haversine_unpack ::
  "pyval \<Rightarrow> error + (pyval \<times> pyval \<times> pyval \<times> pyval \<times> pyval option)" where
  "haversine_unpack coordinates =
     (case coordinates of
        PList cs \<Rightarrow>
          if length cs = 4 then Inr (cs ! 0, cs ! 1, cs ! 2, cs ! 3, None)
          else if length cs = 5 then Inr (cs ! 0, cs ! 1, cs ! 2, cs ! 3, Some (cs ! 4))
          else Inl (AnsibleFilterError (HaversineListLength (length cs)))
      | PDict kvs \<Rightarrow>
          if \<forall>k \<in> set [''lat1'', ''lon1'', ''lat2'', ''lon2'']. dict_find kvs (PStr k) \<noteq> None then
            Inr (dict_get_or_None kvs ''lat1'', dict_get_or_None kvs ''lon1'',
                 dict_get_or_None kvs ''lat2'', dict_get_or_None kvs ''lon2'',
                 Some (dict_get_or_None kvs ''unit''))
          else Inl (AnsibleFilterError HaversineDictKeys)
      | _ \<Rightarrow> Inl (AnsibleFilterError HaversineNotListOrDict))"

text \<open>
  \<^verbatim>\<open>
  try:
      lat1 = float(lat1)
      lon1 = float(lon1)
      lat2 = float(lat2)
      lon2 = float(lon2)
  except ValueError as e:
      raise errors.AnsibleFilterError('haversine() only accepts floats: %s' % str(e))
  \<close>
  One conversion with the handler, then the four in sequence.
\<close>

definition haversine_float :: "(string \<Rightarrow> real option) \<Rightarrow> pyval \<Rightarrow> error + real" where
  "haversine_float str2float v =
     (case py_float str2float v of
        Inl ValueError \<Rightarrow> Inl (AnsibleFilterError (HaversineFloats ValueError))
      | Inl e \<Rightarrow> Inl (PyExc e)
      | Inr r \<Rightarrow> Inr r)"

definition haversine_floats ::
  "(string \<Rightarrow> real option) \<Rightarrow> pyval \<Rightarrow> pyval \<Rightarrow> pyval \<Rightarrow> pyval \<Rightarrow>
     error + (real \<times> real \<times> real \<times> real)" where
  "haversine_floats str2float lat1 lon1 lat2 lon2 =
     (case haversine_float str2float lat1 of
        Inl e \<Rightarrow> Inl e
      | Inr a \<Rightarrow>
        (case haversine_float str2float lon1 of
           Inl e \<Rightarrow> Inl e
         | Inr b \<Rightarrow>
           (case haversine_float str2float lat2 of
              Inl e \<Rightarrow> Inl e
            | Inr c \<Rightarrow>
              (case haversine_float str2float lon2 of
                 Inl e \<Rightarrow> Inl e
               | Inr d \<Rightarrow> Inr (a, b, c, d)))))"

text \<open>\<^verbatim>\<open>'unit' in locals() and unit is not None\<close>, and the assertion
  \<^verbatim>\<open>unit in ['m', 'km']\<close> guarded by it.\<close>

definition unit_defined :: "pyval option \<Rightarrow> bool" where
  "unit_defined unit = (case unit of None \<Rightarrow> False | Some u \<Rightarrow> u \<noteq> PNone)"

definition unit_accepted :: "pyval option \<Rightarrow> bool" where
  "unit_accepted unit =
     (case unit of
        None \<Rightarrow> True
      | Some u \<Rightarrow> u = PNone \<or> seq_contains [PStr ''m'', PStr ''km''] u)"

text \<open>
  \<^verbatim>\<open>
  dlat = radians(lat2 - lat1)
  dlon = radians(lon2 - lon1)
  lat1 = radians(lat1)
  lat2 = radians(lat2)

  a = sin(dlat / 2) ** 2 + cos(lat1) * cos(lat2) * sin(dlon / 2) ** 2
  c = 2 * asin(sqrt(a))
  \<close>
  \<^verbatim>\<open>math.sqrt\<close> and \<^verbatim>\<open>math.asin\<close> raise ValueError outside their domain.
\<close>

definition radians :: "real \<Rightarrow> real" where
  "radians x = x * pi / 180"

definition float_sqrt :: "real \<Rightarrow> py_exc + real" where
  "float_sqrt x = (if x < 0 then Inl ValueError else Inr (sqrt x))"

definition float_asin :: "real \<Rightarrow> py_exc + real" where
  "float_asin x = (if x < - 1 \<or> 1 < x then Inl ValueError else Inr (arcsin x))"

definition haversine_a :: "real \<Rightarrow> real \<Rightarrow> real \<Rightarrow> real \<Rightarrow> real" where
  "haversine_a lat1 lon1 lat2 lon2 =
     (let dlat = radians (lat2 - lat1);
          dlon = radians (lon2 - lon1);
          lat1' = radians lat1;
          lat2' = radians lat2
      in (sin (dlat / 2))\<^sup>2 + cos lat1' * cos lat2' * (sin (dlon / 2))\<^sup>2)"

definition haversine_c :: "real \<Rightarrow> real \<Rightarrow> real \<Rightarrow> real \<Rightarrow> py_exc + real" where
  "haversine_c lat1 lon1 lat2 lon2 =
     (case float_sqrt (haversine_a lat1 lon1 lat2 lon2) of
        Inl e \<Rightarrow> Inl e
      | Inr s \<Rightarrow> (case float_asin s of Inl e \<Rightarrow> Inl e | Inr t \<Rightarrow> Inr (2 * t)))"

text \<open>\<^verbatim>\<open>round(x, 2)\<close>: the multiple of 0.01 nearest to \<^verbatim>\<open>x\<close>, the even one of two that are
  equally near.\<close>

definition round_half_even :: "real \<Rightarrow> int" where
  "round_half_even y =
     (let f = \<lfloor>y\<rfloor>; d = y - of_int f
      in if d < 1 / 2 then f else if 1 / 2 < d then f + 1 else if even f then f else f + 1)"

definition py_round2 :: "real \<Rightarrow> real" where
  "py_round2 x = of_int (round_half_even (x * 100)) / 100"

text \<open>
  \<^verbatim>\<open>
  diameter = {
      'm': 7917.5,
      'km': 12742}
  \<close>
  and \<^verbatim>\<open>round(diameter[unit] / 2 * c, 2)\<close>.
\<close>

definition diameter :: "(pyval \<times> pyval) list" where
  "diameter = [(PStr ''m'', PFloat 7917.5), (PStr ''km'', PInt 12742)]"

definition haversine_distance :: "pyval \<Rightarrow> real \<Rightarrow> py_exc + pyval" where
  "haversine_distance unit c =
     (case py_getitem diameter unit of
        Inl e \<Rightarrow> Inl e
      | Inr d \<Rightarrow>
        (case num_val d of
           None \<Rightarrow> Inl TypeError
         | Some r \<Rightarrow> Inr (PFloat (py_round2 (r / 2 * c)))))"

text \<open>
  \<^verbatim>\<open>
  if ('unit' in locals() and unit is not None):
      return round(diameter[unit] / 2 * c, 2)
  else:
      return {
          'km': round(diameter['km'] / 2 * c, 2),
          'm': round(diameter['m'] / 2 * c, 2)
      }
  \<close>
\<close>

definition haversine_return :: "pyval option \<Rightarrow> real \<Rightarrow> error + pyval" where
  "haversine_return unit c =
     (case (if unit_defined unit then unit else None) of
        Some u \<Rightarrow> (case haversine_distance u c of Inl e \<Rightarrow> Inl (PyExc e) | Inr v \<Rightarrow> Inr v)
      | None \<Rightarrow>
        (case haversine_distance (PStr ''km'') c of
           Inl e \<Rightarrow> Inl (PyExc e)
         | Inr km \<Rightarrow>
           (case haversine_distance (PStr ''m'') c of
              Inl e \<Rightarrow> Inl (PyExc e)
            | Inr m \<Rightarrow> Inr (PDict [(PStr ''km'', km), (PStr ''m'', m)]))))"

definition haversine :: "(string \<Rightarrow> real option) \<Rightarrow> pyval \<Rightarrow> error + pyval" where
  "haversine str2float coordinates =
     (case haversine_unpack coordinates of
        Inl e \<Rightarrow> Inl e
      | Inr (lat1, lon1, lat2, lon2, unit) \<Rightarrow>
        (case haversine_floats str2float lat1 lon1 lat2 lon2 of
           Inl e \<Rightarrow> Inl e
         | Inr (lat1, lon1, lat2, lon2) \<Rightarrow>
           if \<not> unit_accepted unit then Inl (AnsibleFilterError HaversineUnit)
           else
             (case haversine_c lat1 lon1 lat2 lon2 of
                Inl e \<Rightarrow> Inl (AnsibleFilterError (HaversineWentWrong e))
              | Inr c \<Rightarrow> haversine_return unit c)))"


definition unparsable :: "(string \<Rightarrow> real option) \<Rightarrow> pyval \<Rightarrow> bool" where
  "unparsable str2float v = (case py_float str2float v of Inl e \<Rightarrow> True | Inr r \<Rightarrow> False)"




section \<open>Properties of rekey_on_member\<close>

lemma py_eq_refl [simp]: "py_eq a a" by (simp add: py_eq_def)
lemma py_eq_sym: "py_eq a b = py_eq b a" by (auto simp add: py_eq_def)
lemma py_eq_trans: "py_eq a b \<Longrightarrow> py_eq b c \<Longrightarrow> py_eq a c" by (simp add: py_eq_def)

lemma dict_find_cong_key: "py_eq k k' \<Longrightarrow> dict_find d k = dict_find d k'"
  by (induction d) (auto simp: py_eq_def)

lemma dict_find_store:
  "dict_find (dict_store d k v) k' = (if py_eq k k' then Some v else dict_find d k')"
  by (induction d) (auto simp: py_eq_def)

lemma dict_store_values: "(k', v') \<in> set (dict_store d k v) \<Longrightarrow> v' = v \<or> (k', v') \<in> set d"
  by (induction d) (auto split: if_splits)

lemma dict_find_in_values: "dict_find d k = Some v \<Longrightarrow> \<exists>k'. (k', v) \<in> set d"
  by (induction d) (auto split: if_splits)

lemma rekey_loop_append:
  "rekey_loop key dup obj (xs @ ys) =
     (case rekey_loop key dup obj xs of Inl e \<Rightarrow> Inl e | Inr obj' \<Rightarrow> rekey_loop key dup obj' ys)"
  by (induction xs arbitrary: obj)
     (auto split: pyval.splits sum.splits py_exc.splits)


lemma all_truthy_store: "all_truthy d \<Longrightarrow> truthy v \<Longrightarrow> all_truthy (dict_store d k v)"
  unfolding all_truthy_def using dict_store_values by fastforce

lemma all_truthy_find: "all_truthy d \<Longrightarrow> dict_find d k = Some v \<Longrightarrow> truthy v"
  unfolding all_truthy_def using dict_find_in_values by fastforce

lemma derived_key_truthy: "derived_key key item = Some ke \<Longrightarrow> truthy item"
  by (cases item) (auto simp: derived_key_def)

lemma dict_find_nonempty: "dict_find kvs k = Some v \<Longrightarrow> kvs \<noteq> []"
  by (cases kvs) auto

lemma rekey_loop_Cons_Inr:
  assumes "rekey_loop key dup obj (item # rest) = Inr obj'"
  shows "\<exists>kvs ke. item = PDict kvs \<and> hashable key \<and> dict_find kvs key = Some ke \<and> hashable ke \<and>
           (rekey_loop key dup (dict_store obj ke item) rest = Inr obj' \<or>
            (rekey_loop key dup obj rest = Inr obj' \<and> (\<exists>v. dict_find obj ke = Some v \<and> truthy v) \<and>
             \<not> py_eq dup (PStr ''error'') \<and> \<not> py_eq dup (PStr ''overwrite'')))"
  using assms
  by (auto simp: py_getitem_def py_dict_get_def
           split: pyval.splits sum.splits py_exc.splits if_splits option.splits)

lemma rekey_loop_all_truthy:
  "rekey_loop key dup obj items = Inr obj' \<Longrightarrow> all_truthy obj \<Longrightarrow> all_truthy obj'"
proof (induction items arbitrary: obj)
  case Nil
  then show ?case by simp
next
  case (Cons item rest)
  from rekey_loop_Cons_Inr [OF Cons.prems(1)]
  obtain kvs ke where item: "item = PDict kvs" and ke: "dict_find kvs key = Some ke"
    and step: "rekey_loop key dup (dict_store obj ke item) rest = Inr obj' \<or>
               rekey_loop key dup obj rest = Inr obj'"
    by blast
  have "truthy item" using item ke dict_find_nonempty by auto
  then have "all_truthy (dict_store obj ke item)"
    using Cons.prems(2) by (rule all_truthy_store [rotated])
  then show ?case using step Cons.IH Cons.prems(2) by blast
qed

lemma dict_find_rekey_loop:
  assumes "rekey_loop key dup obj items = Inr obj'"
  shows "dict_find obj' ke \<noteq> None \<longleftrightarrow>
           dict_find obj ke \<noteq> None \<or> (\<exists>p \<in> set items. \<exists>k'. derived_key key p = Some k' \<and> py_eq k' ke)"
  using assms
proof (induction items arbitrary: obj)
  case Nil
  then show ?case by simp
next
  case (Cons item rest)
  from rekey_loop_Cons_Inr [OF Cons.prems(1)]
  obtain kvs k1 where item: "item = PDict kvs" and k1: "dict_find kvs key = Some k1"
    and step: "rekey_loop key dup (dict_store obj k1 item) rest = Inr obj' \<or>
               (rekey_loop key dup obj rest = Inr obj' \<and> (\<exists>v. dict_find obj k1 = Some v))"
    by blast
  have dk: "derived_key key item = Some k1" using item k1 by (simp add: derived_key_def)
  from step show ?case
  proof
    assume "rekey_loop key dup (dict_store obj k1 item) rest = Inr obj'"
    from Cons.IH [OF this] show ?thesis
      using dk by (auto simp: dict_find_store)
  next
    assume a: "rekey_loop key dup obj rest = Inr obj' \<and> (\<exists>v. dict_find obj k1 = Some v)"
    then have "\<And>ke. py_eq k1 ke \<Longrightarrow> dict_find obj ke \<noteq> None"
      using dict_find_cong_key by fastforce
    with Cons.IH [of obj] a show ?thesis
      using dk by auto
  qed
qed

lemma find_append_rev_last:
  "find P (xs @ [x]) = (case find P xs of Some y \<Rightarrow> Some y | None \<Rightarrow> if P x then Some x else None)"
  by (induction xs) auto

lemma rekey_loop_overwrite:
  assumes "py_eq dup (PStr ''overwrite'')" and "hashable key"
    and "\<forall>it \<in> set items. \<exists>ke. derived_key key it = Some ke \<and> hashable ke"
  shows "\<exists>obj'. rekey_loop key dup obj items = Inr obj' \<and>
           (\<forall>ke. dict_find obj' ke =
              (case find (\<lambda>it. case derived_key key it of Some k' \<Rightarrow> py_eq k' ke | None \<Rightarrow> False) (rev items) of
                 Some it \<Rightarrow> Some it | None \<Rightarrow> dict_find obj ke))"
  using assms(3)
proof (induction items arbitrary: obj)
  case Nil
  then show ?case by simp
next
  case (Cons item rest)
  then obtain k1 where k1: "derived_key key item = Some k1" and h1: "hashable k1"
    by auto
  then obtain kvs where item: "item = PDict kvs" and f1: "dict_find kvs key = Some k1"
    by (cases item) (auto simp: derived_key_def)
  have ne: "\<not> py_eq dup (PStr ''error'')"
    using assms(1) by (auto simp: py_eq_def)
  have step: "rekey_loop key dup obj (item # rest) = rekey_loop key dup (dict_store obj k1 item) rest"
    using item f1 h1 assms(1,2) ne
    by (simp add: py_getitem_def py_dict_get_def split: option.splits)
  from Cons.prems have "\<forall>it \<in> set rest. \<exists>ke. derived_key key it = Some ke \<and> hashable ke"
    by simp
  from Cons.IH [OF this, of "dict_store obj k1 item"]
  obtain obj' where r: "rekey_loop key dup (dict_store obj k1 item) rest = Inr obj'"
    and l: "\<And>ke. dict_find obj' ke =
              (case find (\<lambda>it. case derived_key key it of Some k' \<Rightarrow> py_eq k' ke | None \<Rightarrow> False) (rev rest) of
                 Some it \<Rightarrow> Some it | None \<Rightarrow> dict_find (dict_store obj k1 item) ke)"
    by blast
  show ?case
    using r step l k1
    by (auto simp: find_append_rev_last dict_find_store split: option.splits)
qed

lemma rekey_loop_not_bad_type:
  "rekey_loop key dup obj items \<noteq> Inl (AnsibleFilterError RekeyBadType)"
  by (induction items arbitrary: obj)
     (auto simp: py_getitem_def py_dict_get_def
           split: pyval.splits sum.splits py_exc.splits if_splits option.splits)

lemma rekey_loop_collision_error:
  assumes "rekey_loop key (PStr ''error'') [] pre = Inr obj"
    and "derived_key key item = Some ke" and "hashable key" and "hashable ke"
    and "\<exists>p \<in> set pre. \<exists>k'. derived_key key p = Some k' \<and> py_eq k' ke"
  shows "rekey_loop key (PStr ''error'') [] (pre @ item # post) =
           Inl (AnsibleFilterError (RekeyNotUnique ke))"
proof -
  have "dict_find obj ke \<noteq> None"
    using dict_find_rekey_loop [OF assms(1), of ke] assms(5) by simp
  then obtain v where v: "dict_find obj ke = Some v" by auto
  have "all_truthy obj"
    using rekey_loop_all_truthy [OF assms(1)] by (simp add: all_truthy_def)
  then have "truthy v" using v by (rule all_truthy_find)
  moreover obtain kvs where "item = PDict kvs" "dict_find kvs key = Some ke"
    using assms(2) by (cases item) (auto simp: derived_key_def)
  ultimately show ?thesis
    using assms(1,3,4) v
    by (simp add: rekey_loop_append py_getitem_def py_dict_get_def)
qed

lemma rekey_loop_missing:
  assumes "rekey_loop key dup [] pre = Inr obj" and "hashable key" and "dict_find kvs key = None"
  shows "rekey_loop key dup [] (pre @ PDict kvs # post) = Inl (AnsibleFilterError (RekeyKeyNotFound key))"
  using assms by (simp add: rekey_loop_append py_getitem_def)

text \<open>
  Claim C8. Whenever \<^verbatim>\<open>rekey_on_member\<close> reaches a record that has no entry for the field
  name \<^verbatim>\<open>key\<close> (the records before it having been rekeyed without error), it fails
  with the filter error "Key ... was not found" (the specification's MissingKey). The
  witness is the specification's example \<^verbatim>\<open>rekey_on_member([{'x':1}], 'missing')\<close>.
\<close>

theorem rekey_on_member_missing_key:
  assumes "valid_duplicates duplicates"
    and "iterate_over data = Some (pre @ PDict kvs # post)"
    and "rekey_on_member (PList pre) key duplicates = Inr r"
    and "hashable key"
    and "dict_find kvs key = None"
  shows "rekey_on_member data key duplicates = Inl (AnsibleFilterError (RekeyKeyNotFound key))"
proof -
  from assms(1,3) obtain obj where "rekey_loop key duplicates [] pre = Inr obj"
    by (cases "rekey_loop key duplicates [] pre")
       (auto simp: rekey_on_member_def valid_duplicates_def)
  from rekey_loop_missing [OF this assms(4,5)] show ?thesis
    using assms(1,2) by (simp add: rekey_on_member_def valid_duplicates_def)
qed

theorem rekey_on_member_missing_key_witness:
  "rekey_on_member (PList [PDict [(PStr ''x'', PInt 1)]]) (PStr ''missing'') (PStr ''error'')
     = Inl (AnsibleFilterError (RekeyKeyNotFound (PStr ''missing'')))"
proof -
  have 1: "valid_duplicates (PStr ''error'')"
    by (simp add: valid_duplicates_def py_eq_def)
  have 2: "iterate_over (PList [PDict [(PStr ''x'', PInt 1)]]) = Some ([] @ PDict [(PStr ''x'', PInt 1)] # [])"
    by simp
  have 3: "rekey_on_member (PList []) (PStr ''missing'') (PStr ''error'') = Inr (PDict [])"
    by (simp add: rekey_on_member_def py_eq_def)
  have 4: "hashable (PStr ''missing'')" by simp
  have 5: "dict_find [(PStr ''x'', PInt 1)] (PStr ''missing'') = None"
    by (simp add: py_eq_def)
  show ?thesis by (rule rekey_on_member_missing_key [OF 1 2 3 4 5])
qed

text \<open>
  Claim C3. With \<^verbatim>\<open>duplicates='error'\<close>, the first record whose derived key equals the
  derived key of an earlier record makes \<^verbatim>\<open>rekey_on_member\<close> fail with the filter error
  "Key ... is not unique" (the specification's DuplicateKey). With
  \<^verbatim>\<open>duplicates='overwrite'\<close>, a collection of records that all have a hashable value under
  \<^verbatim>\<open>key\<close> is turned into a mapping in which every key is bound to the last record, in
  iteration order, that has this derived key. The witness evaluates the specification's
  example with the two records \<^verbatim>\<open>{'id':1,'v':'a'}\<close> and \<^verbatim>\<open>{'id':1,'v':'b'}\<close>.
\<close>

theorem rekey_on_member_duplicates:
  assumes "iterate_over data = Some items" and "hashable key"
  shows "(\<forall>pre item post ke r.
            items = pre @ item # post \<and>
            rekey_on_member (PList pre) key (PStr ''error'') = Inr r \<and>
            derived_key key item = Some ke \<and> hashable ke \<and>
            (\<exists>p \<in> set pre. case derived_key key p of Some k' \<Rightarrow> py_eq k' ke | None \<Rightarrow> False)
            \<longrightarrow> rekey_on_member data key (PStr ''error'') = Inl (AnsibleFilterError (RekeyNotUnique ke)))
       \<and> ((\<forall>it \<in> set items. case derived_key key it of Some ke \<Rightarrow> hashable ke | None \<Rightarrow> False)
            \<longrightarrow> (\<exists>obj. rekey_on_member data key (PStr ''overwrite'') = Inr (PDict obj) \<and>
                  (\<forall>ke. dict_find obj ke =
                     find (\<lambda>it. case derived_key key it of Some k' \<Rightarrow> py_eq k' ke | None \<Rightarrow> False)
                       (rev items))))"
proof (intro conjI allI impI)
  fix pre item post ke r
  assume a: "items = pre @ item # post \<and>
            rekey_on_member (PList pre) key (PStr ''error'') = Inr r \<and>
            derived_key key item = Some ke \<and> hashable ke \<and>
            (\<exists>p \<in> set pre. case derived_key key p of Some k' \<Rightarrow> py_eq k' ke | None \<Rightarrow> False)"
  then obtain obj where o: "rekey_loop key (PStr ''error'') [] pre = Inr obj"
    by (cases "rekey_loop key (PStr ''error'') [] pre")
       (auto simp: rekey_on_member_def)
  from a have c: "\<exists>p \<in> set pre. \<exists>k'. derived_key key p = Some k' \<and> py_eq k' ke"
    by (auto split: option.splits)
  from a have "derived_key key item = Some ke" "hashable ke" by auto
  from rekey_loop_collision_error [OF o this(1) assms(2) this(2) c, of post]
  show "rekey_on_member data key (PStr ''error'') = Inl (AnsibleFilterError (RekeyNotUnique ke))"
    using a assms(1) by (simp add: rekey_on_member_def py_eq_def)
next
  assume "\<forall>it \<in> set items. case derived_key key it of Some ke \<Rightarrow> hashable ke | None \<Rightarrow> False"
  then have h: "\<forall>it \<in> set items. \<exists>ke. derived_key key it = Some ke \<and> hashable ke"
    by (auto split: option.splits)
  have "py_eq (PStr ''overwrite'') (PStr ''overwrite'')" by (simp add: py_eq_def)
  from rekey_loop_overwrite [OF this assms(2) h, of "[]"]
  obtain obj where "rekey_loop key (PStr ''overwrite'') [] items = Inr obj"
    and "\<And>ke. dict_find obj ke =
           (case find (\<lambda>it. case derived_key key it of Some k' \<Rightarrow> py_eq k' ke | None \<Rightarrow> False) (rev items) of
              Some it \<Rightarrow> Some it | None \<Rightarrow> dict_find [] ke)"
    by blast
  then show "\<exists>obj. rekey_on_member data key (PStr ''overwrite'') = Inr (PDict obj) \<and>
                  (\<forall>ke. dict_find obj ke =
                     find (\<lambda>it. case derived_key key it of Some k' \<Rightarrow> py_eq k' ke | None \<Rightarrow> False)
                       (rev items))"
    using assms(1) by (auto simp: rekey_on_member_def py_eq_def split: option.splits)
qed

theorem rekey_on_member_duplicates_witness:
  "rekey_on_member (PList [rec_a, rec_b]) (PStr ''id'') (PStr ''error'')
     = Inl (AnsibleFilterError (RekeyNotUnique (PInt 1))) \<and>
   rekey_on_member (PList [rec_a, rec_b]) (PStr ''id'') (PStr ''overwrite'')
     = Inr (PDict [(PInt 1, rec_b)]) \<and>
   (\<exists>obj. rekey_on_member (PList [rec_a, rec_b]) (PStr ''id'') (PStr ''overwrite'') = Inr (PDict obj) \<and>
      dict_find obj (PInt 1) = Some rec_b)"
proof -
  have i: "iterate_over (PList [rec_a, rec_b]) = Some [rec_a, rec_b]" by simp
  have h: "hashable (PStr ''id'')" by simp
  note t = rekey_on_member_duplicates [OF i h]
  have da: "derived_key (PStr ''id'') rec_a = Some (PInt 1)"
    by (simp add: derived_key_def rec_a_def py_eq_def)
  have db: "derived_key (PStr ''id'') rec_b = Some (PInt 1)"
    by (simp add: derived_key_def rec_b_def py_eq_def)
  have pre: "rekey_on_member (PList [rec_a]) (PStr ''id'') (PStr ''error'') = Inr (PDict [(PInt 1, rec_a)])"
    by (simp add: rekey_on_member_def rec_a_def py_eq_def py_getitem_def py_dict_get_def)
  from t have "[rec_a, rec_b] = [rec_a] @ rec_b # [] \<and>
            rekey_on_member (PList [rec_a]) (PStr ''id'') (PStr ''error'') = Inr (PDict [(PInt 1, rec_a)]) \<and>
            derived_key (PStr ''id'') rec_b = Some (PInt 1) \<and> hashable (PInt 1) \<and>
            (\<exists>p \<in> set [rec_a]. case derived_key (PStr ''id'') p of Some k' \<Rightarrow> py_eq k' (PInt 1) | None \<Rightarrow> False)
            \<longrightarrow> rekey_on_member (PList [rec_a, rec_b]) (PStr ''id'') (PStr ''error'') = Inl (AnsibleFilterError (RekeyNotUnique (PInt 1)))"
    by blast
  then have e: "rekey_on_member (PList [rec_a, rec_b]) (PStr ''id'') (PStr ''error'')
     = Inl (AnsibleFilterError (RekeyNotUnique (PInt 1)))"
    using pre da db by (simp add: py_eq_def)
  from t have "\<exists>obj. rekey_on_member (PList [rec_a, rec_b]) (PStr ''id'') (PStr ''overwrite'') = Inr (PDict obj) \<and>
                  (\<forall>ke. dict_find obj ke =
                     find (\<lambda>it. case derived_key (PStr ''id'') it of Some k' \<Rightarrow> py_eq k' ke | None \<Rightarrow> False)
                       (rev [rec_a, rec_b]))"
    using da db by simp
  then have o: "\<exists>obj. rekey_on_member (PList [rec_a, rec_b]) (PStr ''id'') (PStr ''overwrite'') = Inr (PDict obj) \<and>
      dict_find obj (PInt 1) = Some rec_b"
    using da db by (auto simp: py_eq_def)
  have v: "rekey_on_member (PList [rec_a, rec_b]) (PStr ''id'') (PStr ''overwrite'')
     = Inr (PDict [(PInt 1, rec_b)])"
    by (simp add: rekey_on_member_def rec_a_def rec_b_def py_eq_def py_getitem_def py_dict_get_def)
  from e v o show ?thesis by blast
qed

text \<open>
  Claim C10. A text or byte string passed as \<^verbatim>\<open>data\<close> is rejected with a filter error: the
  one for an unknown \<^verbatim>\<open>duplicates\<close> value if that parameter is invalid, and otherwise
  "Type is not a valid list, set, or dict". With a valid \<^verbatim>\<open>duplicates\<close>, that error is
  raised exactly when \<^verbatim>\<open>data\<close> is neither a non-string iterable (list, tuple, set) nor a
  mapping, and a mapping is rekeyed as the sequence of its values, not of its keys.
\<close>

theorem rekey_on_member_data_types:
  "(\<exists>m. rekey_on_member (PStr s) key duplicates = Inl (AnsibleFilterError m) \<and>
         (m = RekeyBadType \<or> m = RekeyUnknownDuplicates duplicates))
   \<and> (\<exists>m. rekey_on_member (PBytes s) key duplicates = Inl (AnsibleFilterError m) \<and>
         (m = RekeyBadType \<or> m = RekeyUnknownDuplicates duplicates))
   \<and> (valid_duplicates duplicates \<longrightarrow>
        rekey_on_member (PStr s) key duplicates = Inl (AnsibleFilterError RekeyBadType) \<and>
        rekey_on_member (PBytes s) key duplicates = Inl (AnsibleFilterError RekeyBadType) \<and>
        ((rekey_on_member data key duplicates = Inl (AnsibleFilterError RekeyBadType))
           = (\<not> is_collection data)) \<and>
        rekey_on_member (PDict kvs) key duplicates
          = rekey_on_member (PList (map snd kvs)) key duplicates)"
proof -
  have "rekey_on_member data key duplicates \<noteq> Inl (AnsibleFilterError RekeyBadType)"
    if "valid_duplicates duplicates" "is_collection data"
    using that rekey_loop_not_bad_type [of key duplicates "[]"]
    by (cases data; cases "rekey_loop key duplicates [] (the (iterate_over data))")
       (auto simp: rekey_on_member_def valid_duplicates_def is_collection_def)
  moreover have "rekey_on_member data key duplicates = Inl (AnsibleFilterError RekeyBadType)"
    if "valid_duplicates duplicates" "\<not> is_collection data"
    using that by (cases data) (auto simp: rekey_on_member_def valid_duplicates_def is_collection_def)
  ultimately show ?thesis
    by (auto simp: rekey_on_member_def valid_duplicates_def)
qed

theorem rekey_on_member_data_types_witness:
  "valid_duplicates (PStr ''error'') \<and>
   rekey_on_member (PStr ''abc'') (PStr ''id'') (PStr ''error'') = Inl (AnsibleFilterError RekeyBadType) \<and>
   rekey_on_member (PBytes ''abc'') (PStr ''id'') (PStr ''error'') = Inl (AnsibleFilterError RekeyBadType) \<and>
   rekey_on_member (PInt 3) (PStr ''id'') (PStr ''error'') = Inl (AnsibleFilterError RekeyBadType) \<and>
   rekey_on_member (PDict [(PStr ''r1'', rec_a)]) (PStr ''v'') (PStr ''error'')
     = Inr (PDict [(PStr ''a'', rec_a)])"
proof -
  have v: "valid_duplicates (PStr ''error'')"
    by (simp add: valid_duplicates_def py_eq_def)
  have c: "\<not> is_collection (PInt 3)" by (simp add: is_collection_def)
  have l: "rekey_on_member (PList (map snd [(PStr ''r1'', rec_a)])) (PStr ''v'') (PStr ''error'')
     = Inr (PDict [(PStr ''a'', rec_a)])"
    by (simp add: rekey_on_member_def rec_a_def py_eq_def py_getitem_def py_dict_get_def)
  show ?thesis
    using v c l
      rekey_on_member_data_types [of "''abc''" "PStr ''id''" "PStr ''error''" "PInt 3" "[(PStr ''r1'', rec_a)]"]
      rekey_on_member_data_types [of "''abc''" "PStr ''v''" "PStr ''error''" "PInt 3" "[(PStr ''r1'', rec_a)]"]
    by simp
qed

section \<open>Properties of the set theory filters\<close>

subsection \<open>First-seen order\<close>

lemma seq_contains_Nil [simp]: "seq_contains [] x = False"
  by (simp add: seq_contains_def)

lemma seq_contains_Cons [simp]: "seq_contains (e # c) x = (py_eq e x \<or> seq_contains c x)"
  by (simp add: seq_contains_def)

lemma seq_contains_append [simp]: "seq_contains (c @ d) x = (seq_contains c x \<or> seq_contains d x)"
  by (induction c) auto

lemma seq_contains_iff: "seq_contains c x = (\<exists>e \<in> set c. py_eq e x)"
  by (induction c) auto

lemma seq_contains_self: "x \<in> set c \<Longrightarrow> seq_contains c x"
  unfolding seq_contains_iff using py_eq_refl by blast

lemma seq_contains_cong: "py_eq x y \<Longrightarrow> seq_contains c x = seq_contains c y"
  by (auto simp: seq_contains_iff py_eq_def)

lemma seq_contains_filter:
  assumes "\<And>e. py_eq e x \<Longrightarrow> P e = P x"
  shows "seq_contains (filter P c) x = (P x \<and> seq_contains c x)"
  unfolding seq_contains_iff set_filter using assms by blast

lemma seq_contains_filter_in:
  "seq_contains (filter (\<lambda>z. seq_contains d z) c) x = (seq_contains d x \<and> seq_contains c x)"
  by (rule seq_contains_filter) (rule seq_contains_cong)

lemma seq_contains_filter_not_in:
  "seq_contains (filter (\<lambda>z. \<not> seq_contains d z) c) x = (\<not> seq_contains d x \<and> seq_contains c x)"
  by (rule seq_contains_filter) (simp add: seq_contains_cong)

lemma unique_loop_first_seen:
  "unique_loop c xs = c @ first_seen (filter (\<lambda>y. \<not> seq_contains c y) xs)"
proof (induction xs arbitrary: c)
  case Nil
  then show ?case by simp
next
  case (Cons x xs)
  show ?case
  proof (cases "seq_contains c x")
    case True
    then show ?thesis using Cons.IH [of c] by simp
  next
    case False
    have "filter (\<lambda>y. \<not> seq_contains (c @ [x]) y) xs
            = filter (\<lambda>y. \<not> py_eq x y) (filter (\<lambda>y. \<not> seq_contains c y) xs)"
      by simp
    then show ?thesis using False Cons.IH [of "c @ [x]"] by simp
  qed
qed

lemma unique_loop_Nil: "unique_loop [] xs = first_seen xs"
  by (simp add: unique_loop_first_seen)

lemma unique_loop_append: "unique_loop c (xs @ ys) = unique_loop (unique_loop c xs) ys"
  by (induction xs arbitrary: c) auto

lemma seq_contains_first_seen [simp]: "seq_contains (first_seen xs) x = seq_contains xs x"
proof (induction xs rule: first_seen.induct)
  case 1
  then show ?case by simp
next
  case (2 y ys)
  have "seq_contains (filter (\<lambda>z. \<not> py_eq y z) ys) x = (\<not> py_eq y x \<and> seq_contains ys x)"
    by (rule seq_contains_filter) (auto simp: py_eq_def)
  with 2 show ?case by auto
qed

lemma subseq_first_seen: "subseq (first_seen xs) xs"
proof (induction xs rule: first_seen.induct)
  case 1
  then show ?case by simp
next
  case (2 y ys)
  have "subseq (filter (\<lambda>z. \<not> py_eq y z) ys) ys" by simp
  with 2 have "subseq (first_seen (filter (\<lambda>z. \<not> py_eq y z) ys)) ys"
    by (rule subseq_order.trans)
  then show ?case by simp
qed

lemma set_first_seen_subset: "set (first_seen xs) \<subseteq> set xs"
proof (induction xs rule: first_seen.induct)
  case 1
  then show ?case by simp
next
  case (2 y ys)
  then show ?case by auto
qed

lemma py_distinct_first_seen: "py_distinct (first_seen xs)"
proof (induction xs rule: first_seen.induct)
  case 1
  then show ?case by simp
next
  case (2 y ys)
  have "\<not> seq_contains (filter (\<lambda>z. \<not> py_eq y z) ys) y"
    by (auto simp: seq_contains_iff py_eq_sym)
  with 2 show ?case by simp
qed

lemma first_seen_distinct: "py_distinct xs \<Longrightarrow> first_seen xs = xs"
proof (induction xs)
  case Nil
  then show ?case by simp
next
  case (Cons x xs)
  then have "filter (\<lambda>y. \<not> py_eq x y) xs = xs"
    by (auto simp: seq_contains_iff py_eq_def intro!: filter_True)
  then show ?case using Cons by simp
qed

lemma py_distinct_filter: "py_distinct xs \<Longrightarrow> py_distinct (filter P xs)"
  by (induction xs) (auto simp: seq_contains_iff)

lemma py_distinct_append:
  "py_distinct (xs @ ys) = (py_distinct xs \<and> py_distinct ys \<and> (\<forall>y \<in> set ys. \<not> seq_contains xs y))"
  by (induction xs) (auto simp: seq_contains_iff py_eq_def)

lemma prefix_first_seen: "prefix (first_seen xs) (first_seen (xs @ ys))"
proof -
  have "first_seen (xs @ ys) = unique_loop (first_seen xs) ys"
    by (simp add: unique_loop_Nil [symmetric] unique_loop_append)
  then show ?thesis by (simp add: unique_loop_first_seen)
qed

subsection \<open>The filters on lists\<close>

lemma unique_list: "unique hash_order (PList xs) = Inr (PList (first_seen xs))"
  by (simp add: unique_def unique_loop_Nil)

lemma comprehension_list:
  "comprehension keep (PList ys) xs = Inr (filter (\<lambda>x. seq_contains ys x = keep) xs)"
  by (induction xs) auto

lemma comprehension_tuple:
  "comprehension keep (PTuple ys) xs = Inr (filter (\<lambda>x. seq_contains ys x = keep) xs)"
  by (induction xs) auto

lemma intersect_list:
  "intersect hash_order (PList xs) (PList ys)
     = Inr (PList (first_seen (filter (\<lambda>x. seq_contains ys x) xs)))"
  by (simp add: intersect_def comprehension_list unique_list)

lemma difference_list:
  "difference hash_order (PList xs) (PList ys)
     = Inr (PList (first_seen (filter (\<lambda>x. \<not> seq_contains ys x) xs)))"
  by (simp add: difference_def comprehension_list unique_list)

lemma union_list: "union hash_order (PList xs) (PList ys) = Inr (PList (first_seen (xs @ ys)))"
  by (simp add: union_def unique_list)

lemma sym_comprehension_list:
  "sym_comprehension hash_order (PList xs) (PList ys) us =
     Inr (filter (\<lambda>x. \<not> (seq_contains xs x \<and> seq_contains ys x)) us)"
  by (induction us) (auto simp: intersect_list seq_contains_filter_in)

lemma symmetric_difference_list:
  "symmetric_difference hash_order (PList xs) (PList ys) =
     Inr (PList (filter (\<lambda>x. \<not> (seq_contains xs x \<and> seq_contains ys x)) (first_seen (xs @ ys))))"
  by (simp add: symmetric_difference_def union_list sym_comprehension_list unique_list
        first_seen_distinct py_distinct_filter py_distinct_first_seen)

subsection \<open>The guard on the collection\<close>

text \<open>
  Claim C4. The claim holds for a list whose elements are not hashable, and the code
  departs from it for a tuple of the same elements: the elements of
  \<^verbatim>\<open>([1], [2])\<close> are lists, which are not hashable, so the claim promises the result
  \<^verbatim>\<open>[[1], [2]]\<close> in first-seen order, as for the list \<^verbatim>\<open>[[1], [2]]\<close>. The guard
  \<^verbatim>\<open>isinstance(a, collections.Hashable)\<close> looks at the tuple, which has a \<^verbatim>\<open>__hash__\<close>, and
  \<^verbatim>\<open>set(a)\<close> raises a TypeError on the first element.
\<close>

theorem unique_tuple_of_lists:
  "\<not> hashable (PList [PInt 1]) \<and> \<not> hashable (PList [PInt 2]) \<and>
   isinstance_Hashable (PTuple [PList [PInt 1], PList [PInt 2]]) \<and>
   unique hash_order (PTuple [PList [PInt 1], PList [PInt 2]]) = Inl (PyExc TypeError) \<and>
   unique hash_order (PList [PList [PInt 1], PList [PInt 2]])
     = Inr (PList [PList [PInt 1], PList [PInt 2]])"
  by (simp add: unique_def py_set_def seq_contains_def py_eq_def)

text \<open>
  Claim C5. The code departs from the claim for a list and a tuple: the elements in exactly
  one of \<^verbatim>\<open>[1, 2]\<close> and \<^verbatim>\<open>(2, 3)\<close> are 1 and 3, and all elements are hashable. A list is
  not a \<^verbatim>\<open>Hashable\<close>, so the guard sends the pair to the second branch, where
  \<^verbatim>\<open>union\<close> evaluates \<^verbatim>\<open>a + b\<close> and raises a TypeError; \<^verbatim>\<open>symmetric_difference\<close> and
  \<^verbatim>\<open>difference(union(a, b), intersect(a, b))\<close> raise it too. On the same pair
  \<^verbatim>\<open>intersect\<close> and \<^verbatim>\<open>difference\<close> return their lists, and the first branch,
  \<^verbatim>\<open>set(a) ^ set(b)\<close>, would return the set of 1 and 3 (shown for a set that iterates in
  insertion order).
\<close>

theorem symmetric_difference_list_and_tuple:
  "symmetric_difference hash_order (PList [PInt 1, PInt 2]) (PTuple [PInt 2, PInt 3])
     = Inl (PyExc TypeError) \<and>
   union hash_order (PList [PInt 1, PInt 2]) (PTuple [PInt 2, PInt 3]) = Inl (PyExc TypeError) \<and>
   difference_of_union_and_intersect hash_order (PList [PInt 1, PInt 2]) (PTuple [PInt 2, PInt 3])
     = Inl (PyExc TypeError) \<and>
   intersect hash_order (PList [PInt 1, PInt 2]) (PTuple [PInt 2, PInt 3]) = Inr (PList [PInt 2]) \<and>
   difference hash_order (PList [PInt 1, PInt 2]) (PTuple [PInt 2, PInt 3]) = Inr (PList [PInt 1]) \<and>
   set_binop (\<lambda>xs. xs) set_xor (PList [PInt 1, PInt 2]) (PTuple [PInt 2, PInt 3])
     = Inr (PSet [PInt 1, PInt 3])"
proof -
  have u: "union hash_order (PList [PInt 1, PInt 2]) (PTuple [PInt 2, PInt 3]) = Inl (PyExc TypeError)"
    by (simp add: union_def)
  have s: "symmetric_difference hash_order (PList [PInt 1, PInt 2]) (PTuple [PInt 2, PInt 3])
     = Inl (PyExc TypeError)"
    by (simp add: symmetric_difference_def u)
  have d: "difference_of_union_and_intersect hash_order (PList [PInt 1, PInt 2]) (PTuple [PInt 2, PInt 3])
     = Inl (PyExc TypeError)"
    by (simp add: difference_of_union_and_intersect_def u)
  have i: "intersect hash_order (PList [PInt 1, PInt 2]) (PTuple [PInt 2, PInt 3]) = Inr (PList [PInt 2])"
    by (simp add: intersect_def comprehension_tuple unique_list py_eq_def)
  have f: "difference hash_order (PList [PInt 1, PInt 2]) (PTuple [PInt 2, PInt 3]) = Inr (PList [PInt 1])"
    by (simp add: difference_def comprehension_tuple unique_list py_eq_def)
  have x: "set_binop (\<lambda>xs. xs) set_xor (PList [PInt 1, PInt 2]) (PTuple [PInt 2, PInt 3])
     = Inr (PSet [PInt 1, PInt 3])"
    by (simp add: set_binop_def py_set_def set_xor_def set_sub_def seq_contains_def py_eq_def)
  from s u d i f x show ?thesis by blast
qed

section \<open>Properties of min and max\<close>

lemma builtin_min_loop_inv:
  assumes tot: "\<And>x y. x \<in> S \<Longrightarrow> y \<in> S \<Longrightarrow> \<exists>b. py_lt x y = Inr b"
    and irr: "\<And>x. x \<in> S \<Longrightarrow> py_lt x x = Inr False"
    and tr: "\<And>x y z. x \<in> S \<Longrightarrow> y \<in> S \<Longrightarrow> z \<in> S \<Longrightarrow>
               py_lt x y = Inr True \<Longrightarrow> py_lt y z = Inr True \<Longrightarrow> py_lt x z = Inr True"
  shows "set xs \<subseteq> S \<Longrightarrow> m \<in> S \<Longrightarrow> T \<subseteq> S \<Longrightarrow> (\<forall>x \<in> T. py_lt x m = Inr False) \<Longrightarrow>
           \<exists>r. builtin_min_loop m xs = Inr r \<and> r \<in> insert m (set xs) \<and>
               (\<forall>x \<in> insert m (set xs) \<union> T. py_lt x r = Inr False)"
proof (induction xs arbitrary: m T)
  case Nil
  have "py_lt m m = Inr False" using irr Nil.prems(2) .
  then show ?case using Nil.prems(4) by simp
next
  case (Cons x xs)
  have xS: "x \<in> S" and xsS: "set xs \<subseteq> S" using Cons.prems(1) by simp_all
  note mS = Cons.prems(2) and TS = Cons.prems(3) and Tm = Cons.prems(4)
  obtain b where b: "py_lt x m = Inr b" using tot [OF xS mS] by blast
  have mm: "py_lt m m = Inr False" using irr mS .
  show ?case
  proof (cases b)
    case True
    have xm: "py_lt x m = Inr True" using b True by simp
    have below: "py_lt y x = Inr False" if "y \<in> insert m T" for y
    proof -
      have yS: "y \<in> S" using that mS TS by blast
      have ym: "py_lt y m = Inr False" using that mm Tm by blast
      obtain c where c: "py_lt y x = Inr c" using tot [OF yS xS] by blast
      have "\<not> c"
      proof
        assume c
        then have "py_lt y x = Inr True" using c by simp
        from tr [OF yS xS mS this xm] ym show False by simp
      qed
      then show ?thesis using c by simp
    qed
    have T': "insert m T \<subseteq> S" using mS TS by simp
    have "\<forall>y \<in> insert m T. py_lt y x = Inr False" using below by blast
    from Cons.IH [OF xsS xS T' this]
    obtain r where r: "builtin_min_loop x xs = Inr r" "r \<in> insert x (set xs)"
      "\<forall>y \<in> insert x (set xs) \<union> insert m T. py_lt y r = Inr False"
      by blast
    have "builtin_min_loop m (x # xs) = Inr r" using xm r(1) by simp
    moreover have "r \<in> insert m (set (x # xs))" using r(2) by simp
    moreover have "\<forall>y \<in> insert m (set (x # xs)) \<union> T. py_lt y r = Inr False"
      using r(3) by simp
    ultimately show ?thesis by blast
  next
    case False
    have xm: "py_lt x m = Inr False" using b False by simp
    have T': "insert x T \<subseteq> S" using xS TS by simp
    have "\<forall>y \<in> insert x T. py_lt y m = Inr False" using xm Tm by simp
    from Cons.IH [OF xsS mS T' this]
    obtain r where r: "builtin_min_loop m xs = Inr r" "r \<in> insert m (set xs)"
      "\<forall>y \<in> insert m (set xs) \<union> insert x T. py_lt y r = Inr False"
      by blast
    have "builtin_min_loop m (x # xs) = Inr r" using xm r(1) by simp
    moreover have "r \<in> insert m (set (x # xs))" using r(2) by auto
    moreover have "\<forall>y \<in> insert m (set (x # xs)) \<union> T. py_lt y r = Inr False"
      using r(3) by simp
    ultimately show ?thesis by blast
  qed
qed


lemma builtin_max_loop_inv:
  assumes tot: "\<And>x y. x \<in> S \<Longrightarrow> y \<in> S \<Longrightarrow> \<exists>b. py_lt x y = Inr b"
    and irr: "\<And>x. x \<in> S \<Longrightarrow> py_lt x x = Inr False"
    and tr: "\<And>x y z. x \<in> S \<Longrightarrow> y \<in> S \<Longrightarrow> z \<in> S \<Longrightarrow>
               py_lt x y = Inr True \<Longrightarrow> py_lt y z = Inr True \<Longrightarrow> py_lt x z = Inr True"
  shows "set xs \<subseteq> S \<Longrightarrow> m \<in> S \<Longrightarrow> T \<subseteq> S \<Longrightarrow> (\<forall>x \<in> T. py_lt m x = Inr False) \<Longrightarrow>
           \<exists>r. builtin_max_loop m xs = Inr r \<and> r \<in> insert m (set xs) \<and>
               (\<forall>x \<in> insert m (set xs) \<union> T. py_lt r x = Inr False)"
proof (induction xs arbitrary: m T)
  case Nil
  have "py_lt m m = Inr False" using irr Nil.prems(2) .
  then show ?case using Nil.prems(4) by simp
next
  case (Cons x xs)
  have xS: "x \<in> S" and xsS: "set xs \<subseteq> S" using Cons.prems(1) by simp_all
  note mS = Cons.prems(2) and TS = Cons.prems(3) and Tm = Cons.prems(4)
  obtain b where b: "py_lt m x = Inr b" using tot [OF mS xS] by blast
  have mm: "py_lt m m = Inr False" using irr mS .
  show ?case
  proof (cases b)
    case True
    have xm: "py_lt m x = Inr True" using b True by simp
    have below: "py_lt x y = Inr False" if "y \<in> insert m T" for y
    proof -
      have yS: "y \<in> S" using that mS TS by blast
      have ym: "py_lt m y = Inr False" using that mm Tm by blast
      obtain c where c: "py_lt x y = Inr c" using tot [OF xS yS] by blast
      have "\<not> c"
      proof
        assume c
        then have "py_lt x y = Inr True" using c by simp
        from tr [OF mS xS yS xm this] ym show False by simp
      qed
      then show ?thesis using c by simp
    qed
    have T': "insert m T \<subseteq> S" using mS TS by simp
    have "\<forall>y \<in> insert m T. py_lt x y = Inr False" using below by blast
    from Cons.IH [OF xsS xS T' this]
    obtain r where r: "builtin_max_loop x xs = Inr r" "r \<in> insert x (set xs)"
      "\<forall>y \<in> insert x (set xs) \<union> insert m T. py_lt r y = Inr False"
      by blast
    have "builtin_max_loop m (x # xs) = Inr r" using xm r(1) by simp
    moreover have "r \<in> insert m (set (x # xs))" using r(2) by simp
    moreover have "\<forall>y \<in> insert m (set (x # xs)) \<union> T. py_lt r y = Inr False"
      using r(3) by simp
    ultimately show ?thesis by blast
  next
    case False
    have xm: "py_lt m x = Inr False" using b False by simp
    have T': "insert x T \<subseteq> S" using xS TS by simp
    have "\<forall>y \<in> insert x T. py_lt m y = Inr False" using xm Tm by simp
    from Cons.IH [OF xsS mS T' this]
    obtain r where r: "builtin_max_loop m xs = Inr r" "r \<in> insert m (set xs)"
      "\<forall>y \<in> insert m (set xs) \<union> insert x T. py_lt r y = Inr False"
      by blast
    have "builtin_max_loop m (x # xs) = Inr r" using xm r(1) by simp
    moreover have "r \<in> insert m (set (x # xs))" using r(2) by auto
    moreover have "\<forall>y \<in> insert m (set (x # xs)) \<union> T. py_lt r y = Inr False"
      using r(3) by simp
    ultimately show ?thesis by blast
  qed
qed

lemma orderable_total:
  assumes "orderable xs" and "x \<in> set xs" and "y \<in> set xs"
  shows "\<exists>b. py_lt x y = Inr b"
proof -
  from assms have "case py_lt x y of Inl e \<Rightarrow> False | Inr b \<Rightarrow> True"
    unfolding orderable_def by blast
  then show ?thesis by (cases "py_lt x y") auto
qed

lemma strict_order_irrefl:
  assumes "orderable xs" and "strict_order xs" and "x \<in> set xs"
  shows "py_lt x x = Inr False"
proof -
  from assms(2,3) have "py_lt x x \<noteq> Inr True" unfolding strict_order_def by blast
  moreover obtain b where "py_lt x x = Inr b" using orderable_total [OF assms(1,3,3)] by blast
  ultimately show ?thesis by (cases b) simp_all
qed

lemma strict_order_trans:
  assumes "strict_order xs" and "x \<in> set xs" and "y \<in> set xs" and "z \<in> set xs"
    and "py_lt x y = Inr True" and "py_lt y z = Inr True"
  shows "py_lt x z = Inr True"
  using assms unfolding strict_order_def by blast

lemma builtin_min_minimal:
  assumes "py_iter a = Inr xs" and "xs \<noteq> []" and "orderable xs" and "strict_order xs"
  shows "\<exists>m. builtin_min a = Inr m \<and> m \<in> set xs \<and> (\<forall>x \<in> set xs. py_lt x m = Inr False)"
proof -
  obtain y ys where xs: "xs = y # ys" using assms(2) by (cases xs) auto
  have "\<exists>r. builtin_min_loop y ys = Inr r \<and> r \<in> insert y (set ys) \<and>
               (\<forall>x \<in> insert y (set ys) \<union> {}. py_lt x r = Inr False)"
  proof (rule builtin_min_loop_inv [where S = "set xs"])
    show "\<And>x y. x \<in> set xs \<Longrightarrow> y \<in> set xs \<Longrightarrow> \<exists>b. py_lt x y = Inr b"
      using orderable_total [OF assms(3)] by blast
    show "\<And>x. x \<in> set xs \<Longrightarrow> py_lt x x = Inr False"
      using strict_order_irrefl [OF assms(3,4)] by blast
    show "\<And>x y z. x \<in> set xs \<Longrightarrow> y \<in> set xs \<Longrightarrow> z \<in> set xs \<Longrightarrow>
               py_lt x y = Inr True \<Longrightarrow> py_lt y z = Inr True \<Longrightarrow> py_lt x z = Inr True"
      using strict_order_trans [OF assms(4)] by blast
  qed (auto simp: xs)
  then show ?thesis using assms(1) xs by (simp add: builtin_min_def)
qed

lemma builtin_max_maximal:
  assumes "py_iter a = Inr xs" and "xs \<noteq> []" and "orderable xs" and "strict_order xs"
  shows "\<exists>m. builtin_max a = Inr m \<and> m \<in> set xs \<and> (\<forall>x \<in> set xs. py_lt m x = Inr False)"
proof -
  obtain y ys where xs: "xs = y # ys" using assms(2) by (cases xs) auto
  have "\<exists>r. builtin_max_loop y ys = Inr r \<and> r \<in> insert y (set ys) \<and>
               (\<forall>x \<in> insert y (set ys) \<union> {}. py_lt r x = Inr False)"
  proof (rule builtin_max_loop_inv [where S = "set xs"])
    show "\<And>x y. x \<in> set xs \<Longrightarrow> y \<in> set xs \<Longrightarrow> \<exists>b. py_lt x y = Inr b"
      using orderable_total [OF assms(3)] by blast
    show "\<And>x. x \<in> set xs \<Longrightarrow> py_lt x x = Inr False"
      using strict_order_irrefl [OF assms(3,4)] by blast
    show "\<And>x y z. x \<in> set xs \<Longrightarrow> y \<in> set xs \<Longrightarrow> z \<in> set xs \<Longrightarrow>
               py_lt x y = Inr True \<Longrightarrow> py_lt y z = Inr True \<Longrightarrow> py_lt x z = Inr True"
      using strict_order_trans [OF assms(4)] by blast
  qed (auto simp: xs)
  then show ?thesis using assms(1) xs by (simp add: builtin_max_def)
qed

lemma py_lt_numbers:
  assumes "num_val a = Some x" and "num_val b = Some y"
  shows "py_lt a b = Inr (x < y)"
proof -
  from assms(1) have a: "a = PBool (x \<noteq> 0) \<and> (x = 0 \<or> x = 1) \<or> (\<exists>i. a = PInt i) \<or> a = PFloat x"
    by (cases a) (auto split: if_splits)
  from assms(2) have b: "(\<exists>c. b = PBool c) \<or> (\<exists>i. b = PInt i) \<or> b = PFloat y"
    by (cases b) (auto split: if_splits)
  from a b assms show ?thesis by auto
qed

lemma numbers_total:
  assumes "num_val x \<noteq> None" and "num_val y \<noteq> None"
  shows "py_lt x y = Inr (the (num_val x) < the (num_val y))"
proof -
  obtain r where r: "num_val x = Some r" using assms(1) by blast
  obtain s where s: "num_val y = Some s" using assms(2) by blast
  show ?thesis unfolding r s option.sel by (rule py_lt_numbers [OF r s])
qed

lemma numbers_orderable:
  assumes "\<forall>x \<in> set xs. num_val x \<noteq> None"
  shows "orderable xs"
  unfolding orderable_def
proof (intro ballI)
  fix x y assume "x \<in> set xs" "y \<in> set xs"
  then have "num_val x \<noteq> None" "num_val y \<noteq> None" using assms by blast+
  from numbers_total [OF this]
  show "case py_lt x y of Inl e \<Rightarrow> False | Inr b \<Rightarrow> True"
    by (simp only: sum.case)
qed

lemma numbers_strict_order:
  assumes "\<forall>x \<in> set xs. num_val x \<noteq> None"
  shows "strict_order xs"
  unfolding strict_order_def
proof (intro conjI ballI impI)
  fix x assume "x \<in> set xs"
  then have "num_val x \<noteq> None" using assms by blast
  from numbers_total [OF this this]
  show "py_lt x x \<noteq> Inr True" by (simp only: less_irrefl sum.inject simp_thms)
next
  fix x y z assume "x \<in> set xs" "y \<in> set xs" "z \<in> set xs"
    and lt: "py_lt x y = Inr True \<and> py_lt y z = Inr True"
  then have n: "num_val x \<noteq> None" "num_val y \<noteq> None" "num_val z \<noteq> None"
    using assms by blast+
  have "the (num_val x) < the (num_val y)"
    using lt numbers_total [OF n(1,2)] by (simp only: sum.inject simp_thms)
  moreover have "the (num_val y) < the (num_val z)"
    using lt numbers_total [OF n(2,3)] by (simp only: sum.inject simp_thms)
  ultimately have "the (num_val x) < the (num_val z)" by (rule less_trans)
  then show "py_lt x z = Inr True"
    by (simp only: numbers_total [OF n(1,3)] simp_thms)
qed

text \<open>
  Claim C2, as amended. \<^verbatim>\<open>min(a)\<close> and \<^verbatim>\<open>max(a)\<close> return an element of \<^verbatim>\<open>a\<close> that no
  element is smaller than, respectively greater than, when \<^verbatim>\<open>a\<close> is not empty and its
  elements are mutually orderable under the natural ordering. When \<^verbatim>\<open>a\<close> is empty the
  built-in's ValueError leaves the filter unwrapped, and so does its TypeError when \<^verbatim>\<open>a\<close>
  is not iterable or when the comparison of the first two elements is undefined. Neither
  filter ever raises the filter error.
\<close>

theorem min_max_natural_order:
  "(\<forall>e. py_iter a = Inl e \<longrightarrow>
      min_filter a = Inl (PyExc e) \<and> max_filter a = Inl (PyExc e)) \<and>
   (py_iter a = Inr [] \<longrightarrow>
      min_filter a = Inl (PyExc ValueError) \<and> max_filter a = Inl (PyExc ValueError)) \<and>
   (\<forall>xs. py_iter a = Inr xs \<and> xs \<noteq> [] \<and> orderable xs \<and> strict_order xs \<longrightarrow>
      (\<exists>m. min_filter a = Inr m \<and> m \<in> set xs \<and> (\<forall>x \<in> set xs. py_lt x m = Inr False)) \<and>
      (\<exists>m. max_filter a = Inr m \<and> m \<in> set xs \<and> (\<forall>x \<in> set xs. py_lt m x = Inr False))) \<and>
   (\<forall>x y zs e. py_iter a = Inr (x # y # zs) \<longrightarrow>
      (py_lt y x = Inl e \<longrightarrow> min_filter a = Inl (PyExc e)) \<and>
      (py_lt x y = Inl e \<longrightarrow> max_filter a = Inl (PyExc e))) \<and>
   (\<forall>msg. min_filter a \<noteq> Inl (AnsibleFilterError msg) \<and>
          max_filter a \<noteq> Inl (AnsibleFilterError msg))"
proof (intro conjI allI impI)
  fix e assume "py_iter a = Inl e"
  then show "min_filter a = Inl (PyExc e)" "max_filter a = Inl (PyExc e)"
    by (simp_all add: min_filter_def max_filter_def builtin_min_def builtin_max_def)
next
  assume "py_iter a = Inr []"
  then show "min_filter a = Inl (PyExc ValueError)" "max_filter a = Inl (PyExc ValueError)"
    by (simp_all add: min_filter_def max_filter_def builtin_min_def builtin_max_def)
next
  fix xs assume h: "py_iter a = Inr xs \<and> xs \<noteq> [] \<and> orderable xs \<and> strict_order xs"
  then have 1: "py_iter a = Inr xs" and 2: "xs \<noteq> []" and 3: "orderable xs" and 4: "strict_order xs"
    by blast+
  from builtin_min_minimal [OF 1 2 3 4]
  show "\<exists>m. min_filter a = Inr m \<and> m \<in> set xs \<and> (\<forall>x \<in> set xs. py_lt x m = Inr False)"
    by (auto simp: min_filter_def)
  from builtin_max_maximal [OF 1 2 3 4]
  show "\<exists>m. max_filter a = Inr m \<and> m \<in> set xs \<and> (\<forall>x \<in> set xs. py_lt m x = Inr False)"
    by (auto simp: max_filter_def)
next
  fix x y zs e assume i: "py_iter a = Inr (x # y # zs)"
  { assume "py_lt y x = Inl e"
    with i show "min_filter a = Inl (PyExc e)"
      by (simp add: min_filter_def builtin_min_def) }
  { assume "py_lt x y = Inl e"
    with i show "max_filter a = Inl (PyExc e)"
      by (simp add: max_filter_def builtin_max_def) }
next
  fix msg
  show "min_filter a \<noteq> Inl (AnsibleFilterError msg)"
    by (simp add: min_filter_def split: sum.splits)
  show "max_filter a \<noteq> Inl (AnsibleFilterError msg)"
    by (simp add: max_filter_def split: sum.splits)
qed

theorem min_max_natural_order_witness:
  "min_filter (PList [PInt 3, PInt 1, PFloat 2]) = Inr (PInt 1) \<and>
   max_filter (PList [PInt 3, PInt 1, PFloat 2]) = Inr (PInt 3) \<and>
   (\<exists>m. min_filter (PList [PInt 3, PInt 1, PFloat 2]) = Inr m \<and>
      m \<in> set [PInt 3, PInt 1, PFloat 2] \<and>
      (\<forall>x \<in> set [PInt 3, PInt 1, PFloat 2]. py_lt x m = Inr False)) \<and>
   min_filter (PList [PInt 3, PStr ''a'']) = Inl (PyExc TypeError) \<and>
   min_filter (PInt 5) = Inl (PyExc TypeError) \<and>
   min_filter (PList []) = Inl (PyExc ValueError)"
proof -
  let ?a = "PList [PInt 3, PInt 1, PFloat 2]"
  have n: "\<forall>x \<in> set [PInt 3, PInt 1, PFloat 2]. num_val x \<noteq> None" by simp
  have o: "orderable [PInt 3, PInt 1, PFloat 2]" using n by (rule numbers_orderable)
  have s: "strict_order [PInt 3, PInt 1, PFloat 2]" using n by (rule numbers_strict_order)
  have i: "py_iter ?a = Inr [PInt 3, PInt 1, PFloat 2]" by simp
  have v1: "min_filter ?a = Inr (PInt 1)"
    by (simp add: min_filter_def builtin_min_def)
  have v2: "max_filter ?a = Inr (PInt 3)"
    by (simp add: max_filter_def builtin_max_def)
  from min_max_natural_order [of ?a] i o s
  have g: "\<exists>m. min_filter ?a = Inr m \<and> m \<in> set [PInt 3, PInt 1, PFloat 2] \<and>
      (\<forall>x \<in> set [PInt 3, PInt 1, PFloat 2]. py_lt x m = Inr False)"
    by blast
  have i2: "py_iter (PList [PInt 3, PStr ''a'']) = Inr (PInt 3 # PStr ''a'' # [])" by simp
  have c: "py_lt (PStr ''a'') (PInt 3) = Inl TypeError" by simp
  from min_max_natural_order [of "PList [PInt 3, PStr ''a'']"] i2 c
  have t: "min_filter (PList [PInt 3, PStr ''a'']) = Inl (PyExc TypeError)" by blast
  have i3: "py_iter (PInt 5) = Inl TypeError" by simp
  from min_max_natural_order [of "PInt 5"] i3
  have t2: "min_filter (PInt 5) = Inl (PyExc TypeError)" by blast
  have i4: "py_iter (PList []) = Inr []" by simp
  from min_max_natural_order [of "PList []"] i4
  have t3: "min_filter (PList []) = Inl (PyExc ValueError)" by blast
  from v1 v2 g t t2 t3 show ?thesis by blast
qed

text \<open>
  The claim C2 as it was stated fails on the empty list and on a list of an integer and a
  string: the exception that leaves the filter is the built-in's own, not the filter error.
\<close>

theorem min_max_raw_exception_counterexample:
  "min_filter (PList []) = Inl (PyExc ValueError) \<and>
   max_filter (PList []) = Inl (PyExc ValueError) \<and>
   min_filter (PList [PInt 3, PStr ''a'']) = Inl (PyExc TypeError) \<and>
   max_filter (PList [PInt 3, PStr ''a'']) = Inl (PyExc TypeError)"
  by (simp add: min_filter_def max_filter_def builtin_min_def builtin_max_def)

section \<open>Properties of the logarithm and root filters\<close>

lemma logarithm_domain:
  assumes "num_val x = Some r" and "r \<le> 0"
  shows "logarithm x base = Inl (PyExc ValueError)"
  using assms by (simp add: logarithm_def math_log10_def math_log_def)

lemma logarithm_filter_error:
  "(logarithm x base = Inl (AnsibleFilterError m)) =
     (m = LogNumbers TypeError \<and>
      (if py_eq base (PInt 10) then math_log10 x else math_log x base) = Inl TypeError)"
  by (auto simp: logarithm_def split: sum.splits py_exc.splits)

lemma inversepower_negative:
  assumes "num_val x = Some r" and "r < 0"
  shows "inversepower str2float x (PInt 2) = Inl (AnsibleFilterError (RootNumbers ValueError))"
  using assms by (simp add: inversepower_def inversepower_body_def math_sqrt_def py_eq_def)

lemma inversepower_wraps:
  "inversepower str2float x base \<noteq> Inl (PyExc ValueError) \<and>
   inversepower str2float x base \<noteq> Inl (PyExc TypeError)"
  by (auto simp: inversepower_def split: sum.splits py_exc.splits)

text \<open>
  Claim C9. \<^verbatim>\<open>logarithm\<close> wraps only TypeError: for every number \<^verbatim>\<open>x \<le> 0\<close> and every
  \<^verbatim>\<open>base\<close> the ValueError of the \<^verbatim>\<open>math\<close> module leaves the filter unwrapped, and the
  filter error is raised exactly when the \<^verbatim>\<open>math\<close> function raised a TypeError.
  \<^verbatim>\<open>inversepower\<close> wraps both: the square root of a negative number is the filter error,
  and neither a ValueError nor a TypeError ever leaves it unwrapped.
\<close>

theorem logarithm_wraps_only_TypeError:
  "(\<forall>r. num_val x = Some r \<and> r \<le> 0 \<longrightarrow> logarithm x base = Inl (PyExc ValueError)) \<and>
   (\<forall>m. (logarithm x base = Inl (AnsibleFilterError m)) =
      (m = LogNumbers TypeError \<and>
       (if py_eq base (PInt 10) then math_log10 x else math_log x base) = Inl TypeError)) \<and>
   (\<forall>r. num_val x = Some r \<and> r < 0 \<longrightarrow>
      inversepower str2float x (PInt 2) = Inl (AnsibleFilterError (RootNumbers ValueError))) \<and>
   inversepower str2float x base \<noteq> Inl (PyExc ValueError) \<and>
   inversepower str2float x base \<noteq> Inl (PyExc TypeError)"
proof (intro conjI allI impI)
  fix r assume "num_val x = Some r \<and> r \<le> 0"
  then show "logarithm x base = Inl (PyExc ValueError)"
    using logarithm_domain by blast
next
  fix m
  show "(logarithm x base = Inl (AnsibleFilterError m)) =
      (m = LogNumbers TypeError \<and>
       (if py_eq base (PInt 10) then math_log10 x else math_log x base) = Inl TypeError)"
    by (rule logarithm_filter_error)
next
  fix r assume "num_val x = Some r \<and> r < 0"
  then show "inversepower str2float x (PInt 2) = Inl (AnsibleFilterError (RootNumbers ValueError))"
    using inversepower_negative by blast
next
  show "inversepower str2float x base \<noteq> Inl (PyExc ValueError)"
    using inversepower_wraps by blast
  show "inversepower str2float x base \<noteq> Inl (PyExc TypeError)"
    using inversepower_wraps by blast
qed

theorem logarithm_wraps_only_TypeError_witness:
  "logarithm (PInt 0) (PInt 10) = Inl (PyExc ValueError) \<and>
   logarithm (PFloat (- 3)) (PStr ''ten'') = Inl (PyExc ValueError) \<and>
   logarithm (PInt (- 3)) (PFloat (exp 1)) = Inl (PyExc ValueError) \<and>
   inversepower (\<lambda>s. None) (PInt (- 3)) (PInt 2)
     = Inl (AnsibleFilterError (RootNumbers ValueError)) \<and>
   logarithm (PStr ''x'') (PInt 10) = Inl (AnsibleFilterError (LogNumbers TypeError))"
proof -
  have 1: "num_val (PInt 0) = Some 0 \<and> (0::real) \<le> 0" by simp
  have 2: "num_val (PFloat (- 3)) = Some (- 3) \<and> (- 3::real) \<le> 0" by simp
  have 3: "num_val (PInt (- 3)) = Some (- 3) \<and> (- 3::real) \<le> 0" by simp
  have 4: "num_val (PInt (- 3)) = Some (- 3) \<and> (- 3::real) < 0" by simp
  have 5: "(if py_eq (PInt 10) (PInt 10) then math_log10 (PStr ''x'') else math_log (PStr ''x'') (PInt 10))
             = Inl TypeError"
    by (simp add: py_eq_def math_log10_def)
  have a: "logarithm (PInt 0) (PInt 10) = Inl (PyExc ValueError)"
    using logarithm_wraps_only_TypeError [of "PInt 0" "PInt 10", THEN conjunct1] 1 by blast
  have b: "logarithm (PFloat (- 3)) (PStr ''ten'') = Inl (PyExc ValueError)"
    using logarithm_wraps_only_TypeError [of "PFloat (- 3)" "PStr ''ten''", THEN conjunct1] 2
    by blast
  have c: "logarithm (PInt (- 3)) (PFloat (exp 1)) = Inl (PyExc ValueError)"
    using logarithm_wraps_only_TypeError [of "PInt (- 3)" "PFloat (exp 1)", THEN conjunct1] 3
    by blast
  have d: "inversepower (\<lambda>s. None) (PInt (- 3)) (PInt 2)
     = Inl (AnsibleFilterError (RootNumbers ValueError))"
    using logarithm_wraps_only_TypeError [of "PInt (- 3)" "PInt 2" "\<lambda>s. None",
        THEN conjunct2, THEN conjunct2, THEN conjunct1] 4
    by blast
  have e: "logarithm (PStr ''x'') (PInt 10) = Inl (AnsibleFilterError (LogNumbers TypeError))"
    using logarithm_wraps_only_TypeError [of "PStr ''x''" "PInt 10",
        THEN conjunct2, THEN conjunct1, THEN spec, of "LogNumbers TypeError"] 5
    by simp
  from a b c d e show ?thesis by blast
qed

section \<open>Properties of the unit conversion filters\<close>

lemma percent_s_not_tuple: "\<forall>xs. v \<noteq> PTuple xs \<Longrightarrow> percent_s v = Inr v"
  by (cases v) (simp_all add: percent_s_def)

text \<open>
  Claim C7. The code departs from the claim when \<^verbatim>\<open>size\<close> is a tuple that does not have
  exactly one element, such as \<^verbatim>\<open>(1, 2)\<close>: the failure of the utility is caught, but the
  handler formats its message with \<^verbatim>\<open>"... %s" % size\<close>, which takes the tuple for the list
  of arguments and raises a TypeError of its own, so no filter error is raised. For every
  \<^verbatim>\<open>size\<close> that is not a tuple, a failure of the utility becomes the filter error whose
  message shows \<^verbatim>\<open>size\<close>.
\<close>

theorem human_filters_tuple_size:
  "(bytes_to_human (PTuple [PInt 1, PInt 2]) isbits unit = Inl e \<longrightarrow>
      human_readable bytes_to_human (PTuple [PInt 1, PInt 2]) isbits unit = Inl (PyExc TypeError)) \<and>
   (basic_human_to_bytes (PTuple [PInt 1, PInt 2]) default_unit isbits = Inl e \<longrightarrow>
      human_to_bytes basic_human_to_bytes (PTuple [PInt 1, PInt 2]) default_unit isbits
        = Inl (PyExc TypeError)) \<and>
   ((\<forall>xs. size' \<noteq> PTuple xs) \<and> bytes_to_human size' isbits unit = Inl e \<longrightarrow>
      human_readable bytes_to_human size' isbits unit
        = Inl (AnsibleFilterError (HumanReadableCantInterpret size'))) \<and>
   ((\<forall>xs. size' \<noteq> PTuple xs) \<and> basic_human_to_bytes size' default_unit isbits = Inl e \<longrightarrow>
      human_to_bytes basic_human_to_bytes size' default_unit isbits
        = Inl (AnsibleFilterError (HumanToBytesCantInterpret size')))"
  by (simp add: human_readable_def human_to_bytes_def percent_s_not_tuple)
     (simp add: percent_s_def)

theorem human_filters_tuple_size_witness:
  "human_readable (\<lambda>s i u. Inl TypeError) (PTuple [PInt 1, PInt 2]) (PBool False) PNone
     = Inl (PyExc TypeError) \<and>
   human_to_bytes (\<lambda>s d i. Inl ValueError) (PTuple [PInt 1, PInt 2]) PNone (PBool False)
     = Inl (PyExc TypeError) \<and>
   human_readable (\<lambda>s i u. Inl TypeError) (PStr ''ten'') (PBool False) PNone
     = Inl (AnsibleFilterError (HumanReadableCantInterpret (PStr ''ten''))) \<and>
   human_to_bytes (\<lambda>s d i. Inl ValueError) (PStr ''10 parsecs'') PNone (PBool False)
     = Inl (AnsibleFilterError (HumanToBytesCantInterpret (PStr ''10 parsecs'')))"
proof -
  note t1 = human_filters_tuple_size [of "\<lambda>s i u. Inl TypeError" "PBool False" PNone TypeError
      "\<lambda>s d i. Inl ValueError" PNone "PStr ''ten''"]
  note t2 = human_filters_tuple_size [of "\<lambda>s i u. Inl ValueError" "PBool False" PNone ValueError
      "\<lambda>s d i. Inl ValueError" PNone "PStr ''10 parsecs''"]
  have a: "human_readable (\<lambda>s i u. Inl TypeError) (PTuple [PInt 1, PInt 2]) (PBool False) PNone
     = Inl (PyExc TypeError)"
    using t1 [THEN conjunct1] by simp
  have b: "human_to_bytes (\<lambda>s d i. Inl ValueError) (PTuple [PInt 1, PInt 2]) PNone (PBool False)
     = Inl (PyExc TypeError)"
    using t2 [THEN conjunct2, THEN conjunct1] by simp
  have c: "human_readable (\<lambda>s i u. Inl TypeError) (PStr ''ten'') (PBool False) PNone
     = Inl (AnsibleFilterError (HumanReadableCantInterpret (PStr ''ten'')))"
    using t1 [THEN conjunct2, THEN conjunct2, THEN conjunct1] by simp
  have d: "human_to_bytes (\<lambda>s d i. Inl ValueError) (PStr ''10 parsecs'') PNone (PBool False)
     = Inl (AnsibleFilterError (HumanToBytesCantInterpret (PStr ''10 parsecs'')))"
    using t2 [THEN conjunct2, THEN conjunct2, THEN conjunct2] by simp
  from a b c d show ?thesis by blast
qed

section \<open>Properties of haversine\<close>

lemma sin_half_squared: "(sin (x / 2))\<^sup>2 = (1 - cos x) / 2" for x :: real
  using cos_double_sin [of "x / 2"] by simp

lemma cos_half_squared: "(cos (x / 2))\<^sup>2 = (1 + cos x) / 2" for x :: real
  using cos_double_cos [of "x / 2"] by simp

lemma haversine_identity:
  "(sin ((v - u) / 2))\<^sup>2 + cos u * cos v = (cos ((u + v) / 2))\<^sup>2" for u v :: real
proof -
  have "cos (v - u) + cos (u + v) = 2 * (cos u * cos v)"
    by (simp add: cos_add cos_diff)
  then show ?thesis
    unfolding sin_half_squared cos_half_squared by (simp add: field_simps)
qed

lemma convex_unit:
  fixes s A B :: real
  assumes "0 \<le> s" "s \<le> 1" "0 \<le> A" "A \<le> 1" "0 \<le> B" "B \<le> 1"
  shows "0 \<le> (1 - s) * A + s * B" and "(1 - s) * A + s * B \<le> 1"
proof -
  show "0 \<le> (1 - s) * A + s * B" using assms by simp
  have "(1 - s) * A \<le> (1 - s) * 1" using assms by (intro mult_left_mono) simp_all
  moreover have "s * B \<le> s * 1" using assms by (intro mult_left_mono) simp_all
  ultimately show "(1 - s) * A + s * B \<le> 1" by simp
qed

lemma sin_squared_le_one: "(sin x)\<^sup>2 \<le> 1" for x :: real
  using abs_sin_le_one [of x] by (simp add: abs_square_le_1 [symmetric])

lemma cos_squared_le_one: "(cos x)\<^sup>2 \<le> 1" for x :: real
  using abs_cos_le_one [of x] by (simp add: abs_square_le_1 [symmetric])

lemma haversine_a_bounds:
  "0 \<le> haversine_a lat1 lon1 lat2 lon2" "haversine_a lat1 lon1 lat2 lon2 \<le> 1"
proof -
  define u where "u = radians lat1"
  define v where "v = radians lat2"
  define s where "s = (sin (radians (lon2 - lon1) / 2))\<^sup>2"
  define A where "A = (sin ((v - u) / 2))\<^sup>2"
  define B where "B = (cos ((u + v) / 2))\<^sup>2"
  have d: "radians (lat2 - lat1) = v - u"
    by (simp add: radians_def u_def v_def field_simps)
  have a: "haversine_a lat1 lon1 lat2 lon2 = A + cos u * cos v * s"
    by (simp add: haversine_a_def Let_def d u_def [symmetric] v_def [symmetric] s_def A_def)
  have "B = A + cos u * cos v"
    unfolding B_def haversine_identity [symmetric] A_def by simp
  then have "A + cos u * cos v * s = (1 - s) * A + s * B"
    by (simp add: algebra_simps)
  then have e: "haversine_a lat1 lon1 lat2 lon2 = (1 - s) * A + s * B" using a by simp
  have b: "0 \<le> s" "s \<le> 1" "0 \<le> A" "A \<le> 1" "0 \<le> B" "B \<le> 1"
    unfolding s_def A_def B_def
    by (simp_all add: sin_squared_le_one cos_squared_le_one)
  show "0 \<le> haversine_a lat1 lon1 lat2 lon2" "haversine_a lat1 lon1 lat2 lon2 \<le> 1"
    unfolding e using convex_unit [OF b] by simp_all
qed

lemma haversine_c_returns:
  "haversine_c lat1 lon1 lat2 lon2 = Inr (2 * arcsin (sqrt (haversine_a lat1 lon1 lat2 lon2)))"
proof -
  define a where "a = haversine_a lat1 lon1 lat2 lon2"
  have a0: "\<not> a < 0" and a1: "a \<le> 1"
    using haversine_a_bounds [of lat1 lon1 lat2 lon2] by (simp_all add: a_def)
  have "0 \<le> sqrt a" using a0 by simp
  then have s0: "\<not> sqrt a < - 1" by linarith
  have "sqrt a \<le> 1" using a1 by simp
  then have s1: "\<not> 1 < sqrt a" by linarith
  show ?thesis
    unfolding haversine_c_def a_def [symmetric]
    using a0 s0 s1 by (simp only: float_sqrt_def float_asin_def if_False sum.case simp_thms)
qed

lemma py_float_cases:
  "(\<exists>r. py_float str2float v = Inr r) \<or> py_float str2float v = Inl ValueError \<or>
   py_float str2float v = Inl TypeError"
  by (cases v) (simp_all add: py_float_def split: option.splits)

lemma unparsable_iff:
  "py_float str2float v \<noteq> Inl TypeError \<Longrightarrow>
   unparsable str2float v = (py_float str2float v = Inl ValueError)"
  using py_float_cases [of str2float v] by (auto simp add: unparsable_def)

lemma haversine_float_Inr:
  "py_float str2float v = Inr r \<Longrightarrow> haversine_float str2float v = Inr r"
  by (simp add: haversine_float_def)

lemma haversine_float_ValueError:
  "py_float str2float v = Inl ValueError \<Longrightarrow>
   haversine_float str2float v = Inl (AnsibleFilterError (HaversineFloats ValueError))"
  by (simp add: haversine_float_def)



lemma canon_CStr: "canon u = CStr s \<Longrightarrow> u = PStr s"
  by (cases u) (simp_all split: if_splits)

lemma unit_in_m_km:
  "seq_contains [PStr ''m'', PStr ''km''] u = (u = PStr ''m'' \<or> u = PStr ''km'')"
proof
  assume "seq_contains [PStr ''m'', PStr ''km''] u"
  then have "canon u = CStr ''m'' \<or> canon u = CStr ''km''"
    by (auto simp add: seq_contains_def py_eq_def)
  then show "u = PStr ''m'' \<or> u = PStr ''km''"
    using canon_CStr by blast
next
  assume "u = PStr ''m'' \<or> u = PStr ''km''"
  then show "seq_contains [PStr ''m'', PStr ''km''] u"
    by (auto simp add: seq_contains_def py_eq_def)
qed

lemma diameter_km: "py_getitem diameter (PStr ''km'') = Inr (PInt 12742)"
  by (simp add: py_getitem_def diameter_def py_eq_def)

lemma diameter_m: "py_getitem diameter (PStr ''m'') = Inr (PFloat 7917.5)"
  by (simp add: py_getitem_def diameter_def py_eq_def)

lemma haversine_distance_km:
  "haversine_distance (PStr ''km'') c = Inr (PFloat (py_round2 (12742 / 2 * c)))"
  unfolding haversine_distance_def diameter_km by simp

lemma haversine_distance_m:
  "haversine_distance (PStr ''m'') c = Inr (PFloat (py_round2 (7917.5 / 2 * c)))"
  unfolding haversine_distance_def diameter_m by simp

lemma haversine_return_None:
  "\<not> unit_defined unit \<Longrightarrow>
   haversine_return unit c =
     Inr (PDict [(PStr ''km'', PFloat (py_round2 (12742 / 2 * c))),
                 (PStr ''m'', PFloat (py_round2 (7917.5 / 2 * c)))])"
  by (simp add: haversine_return_def haversine_distance_km haversine_distance_m)














lemma round_half_even_near: "\<bar>of_int (round_half_even y) - y\<bar> \<le> 1 / 2"
proof -
  have "of_int \<lfloor>y\<rfloor> \<le> y" "y < of_int \<lfloor>y\<rfloor> + 1" by linarith+
  then show ?thesis
    unfolding round_half_even_def Let_def by (simp split: if_splits)
qed

lemma py_round2_near: "\<bar>py_round2 x - x\<bar> \<le> 1 / 200"
  using round_half_even_near [of "x * 100"] by (simp add: py_round2_def field_simps)

lemma py_round2_hundredths: "\<exists>k::int. py_round2 x = of_int k / 100"
  unfolding py_round2_def by blast

lemma py_round2_zero: "py_round2 0 = 0"
  by (simp add: py_round2_def round_half_even_def)

lemma haversine_a_same_point: "haversine_a a b a b = 0"
  by (simp add: haversine_a_def radians_def)

lemma haversine_valid:
  assumes un: "haversine_unpack coordinates = Inr (lat1, lon1, lat2, lon2, unit)"
    and fl: "haversine_floats str2float lat1 lon1 lat2 lon2 = Inr (a, b, c, d)"
    and ua: "unit_accepted unit"
  shows "haversine str2float coordinates =
           haversine_return unit (2 * arcsin (sqrt (haversine_a a b c d)))"
  by (simp add: haversine_def un fl ua haversine_c_returns)

lemma unit_accepted_cases:
  assumes "unit_accepted unit"
  shows "unit = None \<or> unit = Some PNone \<or> unit = Some (PStr ''km'') \<or> unit = Some (PStr ''m'')"
proof (cases unit)
  case None
  then show ?thesis by simp
next
  case (Some u)
  with assms have "u = PNone \<or> seq_contains [PStr ''m'', PStr ''km''] u"
    by (simp add: unit_accepted_def)
  then have "u = PNone \<or> u = PStr ''m'' \<or> u = PStr ''km''"
    unfolding unit_in_m_km .
  then show ?thesis using Some by blast
qed

lemma haversine_return_km:
  "haversine_return (Some (PStr ''km'')) c = Inr (PFloat (py_round2 (12742 / 2 * c)))"
  by (simp add: haversine_return_def unit_defined_def haversine_distance_km)

lemma haversine_return_m:
  "haversine_return (Some (PStr ''m'')) c = Inr (PFloat (py_round2 (7917.5 / 2 * c)))"
  by (simp add: haversine_return_def unit_defined_def haversine_distance_m)

lemma haversine_origin:
  "haversine str2float (PList [PInt 0, PInt 0, PInt 0, PInt 0])
     = Inr (PDict [(PStr ''km'', PFloat 0), (PStr ''m'', PFloat 0)])"
proof -
  have un: "haversine_unpack (PList [PInt 0, PInt 0, PInt 0, PInt 0])
              = Inr (PInt 0, PInt 0, PInt 0, PInt 0, None)"
    by (simp add: haversine_unpack_def)
  have fl: "haversine_floats str2float (PInt 0) (PInt 0) (PInt 0) (PInt 0) = Inr (0, 0, 0, 0)"
    by (simp add: haversine_floats_def haversine_float_def py_float_def)
  have ua: "unit_accepted None" by (simp add: unit_accepted_def)
  have nd: "\<not> unit_defined None" by (simp add: unit_defined_def)
  show ?thesis
    unfolding haversine_valid [OF un fl ua] haversine_return_None [OF nd] haversine_a_same_point
    by (simp add: py_round2_zero)
qed

text \<open>
  Claim C6. For an input that unpacks to four coordinates and a unit, whose coordinates
  convert to floats and whose unit is accepted, the result is: with the unit \<^verbatim>\<open>'km'\<close> or
  \<^verbatim>\<open>'m'\<close>, the single number \<^verbatim>\<open>round(diameter[unit] / 2 * c, 2)\<close>; with no unit (or \<^verbatim>\<open>None\<close>),
  the mapping of \<^verbatim>\<open>'km'\<close> and \<^verbatim>\<open>'m'\<close> to the two numbers, each rounded on its own; there is no
  other case. Here \<^verbatim>\<open>c\<close> is \<^verbatim>\<open>2 * asin(sqrt(a))\<close>, and rounding to two places gives a multiple
  of 0.01 within 0.005 of its argument. In particular \<^verbatim>\<open>haversine([0, 0, 0, 0])\<close> is
  \<^verbatim>\<open>{'km': 0.0, 'm': 0.0}\<close>.
\<close>

theorem haversine_rounded_result:
  assumes un: "haversine_unpack coordinates = Inr (lat1, lon1, lat2, lon2, unit)"
    and fl: "haversine_floats str2float lat1 lon1 lat2 lon2 = Inr (a, b, c, d)"
    and ua: "unit_accepted unit"
  shows "(unit = Some (PStr ''km'') \<longrightarrow>
            haversine str2float coordinates =
              Inr (PFloat (py_round2 (12742 / 2 * (2 * arcsin (sqrt (haversine_a a b c d))))))) \<and>
         (unit = Some (PStr ''m'') \<longrightarrow>
            haversine str2float coordinates =
              Inr (PFloat (py_round2 (7917.5 / 2 * (2 * arcsin (sqrt (haversine_a a b c d))))))) \<and>
         (unit = None \<or> unit = Some PNone \<longrightarrow>
            haversine str2float coordinates =
              Inr (PDict
                [(PStr ''km'', PFloat (py_round2 (12742 / 2 * (2 * arcsin (sqrt (haversine_a a b c d)))))),
                 (PStr ''m'', PFloat (py_round2 (7917.5 / 2 * (2 * arcsin (sqrt (haversine_a a b c d))))))])) \<and>
         (unit = None \<or> unit = Some PNone \<or> unit = Some (PStr ''km'') \<or> unit = Some (PStr ''m'')) \<and>
         (\<forall>x. (\<exists>k::int. py_round2 x = of_int k / 100) \<and> \<bar>py_round2 x - x\<bar> \<le> 1 / 200) \<and>
         haversine str2float (PList [PInt 0, PInt 0, PInt 0, PInt 0])
           = Inr (PDict [(PStr ''km'', PFloat 0), (PStr ''m'', PFloat 0)])"
proof (intro conjI impI allI)
  assume "unit = Some (PStr ''km'')"
  then show "haversine str2float coordinates =
      Inr (PFloat (py_round2 (12742 / 2 * (2 * arcsin (sqrt (haversine_a a b c d))))))"
    unfolding haversine_valid [OF un fl ua] by (simp only: haversine_return_km)
next
  assume "unit = Some (PStr ''m'')"
  then show "haversine str2float coordinates =
      Inr (PFloat (py_round2 (7917.5 / 2 * (2 * arcsin (sqrt (haversine_a a b c d))))))"
    unfolding haversine_valid [OF un fl ua] by (simp only: haversine_return_m)
next
  assume "unit = None \<or> unit = Some PNone"
  then have "\<not> unit_defined unit" by (auto simp add: unit_defined_def)
  then show "haversine str2float coordinates =
      Inr (PDict
        [(PStr ''km'', PFloat (py_round2 (12742 / 2 * (2 * arcsin (sqrt (haversine_a a b c d)))))),
         (PStr ''m'', PFloat (py_round2 (7917.5 / 2 * (2 * arcsin (sqrt (haversine_a a b c d))))))])"
    unfolding haversine_valid [OF un fl ua] by (rule haversine_return_None)
next
  show "unit = None \<or> unit = Some PNone \<or> unit = Some (PStr ''km'') \<or> unit = Some (PStr ''m'')"
    using ua by (rule unit_accepted_cases)
next
  fix x show "\<exists>k::int. py_round2 x = of_int k / 100" by (rule py_round2_hundredths)
next
  fix x show "\<bar>py_round2 x - x\<bar> \<le> 1 / 200" by (rule py_round2_near)
next
  show "haversine str2float (PList [PInt 0, PInt 0, PInt 0, PInt 0])
           = Inr (PDict [(PStr ''km'', PFloat 0), (PStr ''m'', PFloat 0)])"
    by (rule haversine_origin)
qed

theorem haversine_rounded_result_witness:
  "haversine (\<lambda>s. None)
     (PDict [(PStr ''lat1'', PFloat 52.5), (PStr ''lon1'', PFloat 13.4),
             (PStr ''lat2'', PFloat 51.5), (PStr ''lon2'', PFloat (- 0.1)),
             (PStr ''unit'', PStr ''km'')])
     = Inr (PFloat (py_round2
         (12742 / 2 * (2 * arcsin (sqrt (haversine_a 52.5 13.4 51.5 (- 0.1))))))) \<and>
   haversine (\<lambda>s. None) (PList [PInt 0, PInt 0, PInt 0, PInt 90])
     = Inr (PDict
         [(PStr ''km'', PFloat (py_round2 (12742 / 2 * (2 * arcsin (sqrt (haversine_a 0 0 0 90)))))),
          (PStr ''m'', PFloat (py_round2 (7917.5 / 2 * (2 * arcsin (sqrt (haversine_a 0 0 0 90))))))])"
proof -
  let ?p = "\<lambda>s::string. None::real option"
  let ?A = "PDict [(PStr ''lat1'', PFloat 52.5), (PStr ''lon1'', PFloat 13.4),
             (PStr ''lat2'', PFloat 51.5), (PStr ''lon2'', PFloat (- 0.1)),
             (PStr ''unit'', PStr ''km'')]"
  let ?B = "PList [PInt 0, PInt 0, PInt 0, PInt 90]"
  have unA: "haversine_unpack ?A
      = Inr (PFloat 52.5, PFloat 13.4, PFloat 51.5, PFloat (- 0.1), Some (PStr ''km''))"
    by (simp add: haversine_unpack_def dict_get_or_None_def py_eq_def)
  have flA: "haversine_floats ?p (PFloat 52.5) (PFloat 13.4) (PFloat 51.5) (PFloat (- 0.1))
      = Inr (52.5, 13.4, 51.5, - 0.1)"
    by (simp add: haversine_floats_def haversine_float_def py_float_def)
  have uaA: "unit_accepted (Some (PStr ''km''))"
    by (simp add: unit_accepted_def seq_contains_def py_eq_def)
  have unB: "haversine_unpack ?B = Inr (PInt 0, PInt 0, PInt 0, PInt 90, None)"
    by (simp add: haversine_unpack_def)
  have flB: "haversine_floats ?p (PInt 0) (PInt 0) (PInt 0) (PInt 90) = Inr (0, 0, 0, 90)"
    by (simp add: haversine_floats_def haversine_float_def py_float_def)
  have uaB: "unit_accepted None" by (simp add: unit_accepted_def)
  have A: "haversine ?p ?A = Inr (PFloat (py_round2
         (12742 / 2 * (2 * arcsin (sqrt (haversine_a 52.5 13.4 51.5 (- 0.1)))))))"
    using haversine_rounded_result [OF unA flA uaA, THEN conjunct1] by simp
  have B: "haversine ?p ?B = Inr (PDict
         [(PStr ''km'', PFloat (py_round2 (12742 / 2 * (2 * arcsin (sqrt (haversine_a 0 0 0 90)))))),
          (PStr ''m'', PFloat (py_round2 (7917.5 / 2 * (2 * arcsin (sqrt (haversine_a 0 0 0 90))))))])"
    using haversine_rounded_result [OF unB flB uaB, THEN conjunct2, THEN conjunct2, THEN conjunct1]
    by simp
  from A B show ?thesis by (rule conjI)
qed

end
